theory Spec2Isabelle
  imports Main "HOL-Library.Multiset"
begin

section \<open>Python values and operations used by FCBinding.py\<close>

text \<open>
  The exceptions that the modelled code raises or catches. An \<open>except Exception\<close>
  handler catches every one of them; an \<open>except KeyError\<close> handler only the first.
  An expression that may raise has a \<open>result\<close>: \<open>Inl\<close> of the exception or \<open>Inr\<close>
  of its value. A method that changes the state has an \<open>outcome\<close>: the state it
  leaves, with what it changed before any exception, and the exception that left
  it (\<open>None\<close> when it returned).
\<close>

datatype py_error =
  KeyError | TypeError | ValueError | IndexError | AttributeError | NotImplementedError | OSError

type_synonym 'a result = "py_error + 'a"

definition bnd :: "'a result \<Rightarrow> ('a \<Rightarrow> 'b result) \<Rightarrow> 'b result" where
  "bnd m f = (case m of Inl e \<Rightarrow> Inl e | Inr x \<Rightarrow> f x)"

type_synonym 's outcome = "'s \<times> py_error option"

text \<open>Two calls in succession: an exception of the first one ends the sequence.\<close>

definition andThen :: "'s outcome \<Rightarrow> ('s \<Rightarrow> 's outcome) \<Rightarrow> 's outcome" where
  "andThen r f = (case r of (s, None) \<Rightarrow> f s | (s, Some e) \<Rightarrow> (s, Some e))"

text \<open>
  The value that \<open>json.load\<close> returns for RibbonStructure.json. An object is a
  dict in insertion order (keys are distinct after parsing; lookup takes the first
  entry). The arrays of the file hold strings only (command, toolbar and workbench
  names), and numbers are integers: arrays of other values and floats are not values
  of this type. \<open>JNull\<close> is also Python's \<open>None\<close>, the initial value of
  \<open>ModernMenu.ribbonStructure\<close>.
\<close>

datatype json =
  JNull | JBool bool | JNum int | JStr string | JArr "string list" | JObj "(string \<times> json) list"

text \<open>\<open>obj[key]\<close> for a string key.\<close>

fun getitem :: "json \<Rightarrow> string \<Rightarrow> json result" where
  "getitem (JObj kv) k = (case map_of kv k of None \<Rightarrow> Inl KeyError | Some v \<Rightarrow> Inr v)"
| "getitem _ k = Inl TypeError"

text \<open>
  \<open>obj[action.data()]\<close>: the data of an action is a string (the command name),
  or \<open>None\<close> when it was never set; \<open>None\<close> is hashable and is no key of a
  parsed JSON object.
\<close>

fun getitem_data :: "json \<Rightarrow> string option \<Rightarrow> json result" where
  "getitem_data j (Some k) = getitem j k"
| "getitem_data (JObj kv) None = Inl KeyError"
| "getitem_data _ None = Inl TypeError"

text \<open>A chain of subscripts \<open>obj[k1][k2]...\<close>, evaluated left to right.\<close>

fun getpath :: "json \<Rightarrow> string list \<Rightarrow> json result" where
  "getpath j [] = Inr j"
| "getpath j (k # ks) = bnd (getitem j k) (\<lambda>v. getpath v ks)"

text \<open>\<open>sub in s\<close> and \<open>s.index(sub)\<close> for two strings.\<close>

definition startswith :: "string \<Rightarrow> string \<Rightarrow> bool" where
  "startswith s p = (take (length p) s = p)"

definition endswith :: "string \<Rightarrow> string \<Rightarrow> bool" where
  "endswith s p = (length p \<le> length s \<and> drop (length s - length p) s = p)"

fun str_find :: "string \<Rightarrow> string \<Rightarrow> nat option" where
  "str_find sub [] = (if sub = [] then Some 0 else None)"
| "str_find sub (c # cs) =
     (if startswith (c # cs) sub then Some 0 else map_option Suc (str_find sub cs))"

fun list_find :: "string \<Rightarrow> string list \<Rightarrow> nat option" where
  "list_find x [] = None"
| "list_find x (y # ys) = (if y = x then Some 0 else map_option Suc (list_find x ys))"

text \<open>\<open>x in container\<close> for a string \<open>x\<close>.\<close>

fun contains :: "string \<Rightarrow> json \<Rightarrow> bool result" where
  "contains x (JArr xs) = Inr (x \<in> set xs)"
| "contains x (JObj kv) = Inr (x \<in> set (map fst kv))"
| "contains x (JStr s) = Inr (str_find x s \<noteq> None)"
| "contains x _ = Inl TypeError"

text \<open>
  \<open>container.index(x)\<close> for a string \<open>x\<close>: lists and strings have the method
  (ValueError when \<open>x\<close> does not occur), nothing else does.
\<close>

fun index_of :: "json \<Rightarrow> string \<Rightarrow> int result" where
  "index_of (JArr xs) x = (case list_find x xs of None \<Rightarrow> Inl ValueError | Some i \<Rightarrow> Inr (int i))"
| "index_of (JStr s) x = (case str_find x s of None \<Rightarrow> Inl ValueError | Some i \<Rightarrow> Inr (int i))"
| "index_of _ x = Inl AttributeError"

text \<open>\<open>for x in container\<close>: the elements of a list, the keys of a dict, the
  characters of a string.\<close>

fun py_iter :: "json \<Rightarrow> string list result" where
  "py_iter (JArr xs) = Inr xs"
| "py_iter (JObj kv) = Inr (map fst kv)"
| "py_iter (JStr s) = Inr (map (\<lambda>c. [c]) s)"
| "py_iter _ = Inl TypeError"

text \<open>\<open>dict.items()\<close>; other values have no such method.\<close>

fun py_items :: "json \<Rightarrow> (string \<times> json) list result" where
  "py_items (JObj kv) = Inr kv"
| "py_items _ = Inl AttributeError"

text \<open>\<open>s.replace("&", "")\<close>, \<open>s.replace("_custom", "")\<close>, \<open>s.split(",")\<close> and
  \<open>os.path.join(a, b)\<close> (POSIX).\<close>

definition strip_amp :: "string \<Rightarrow> string" where
  "strip_amp s = filter (\<lambda>c. c \<noteq> CHR ''&'') s"

fun remove_custom :: "string \<Rightarrow> string" where
  "remove_custom [] = []"
| "remove_custom (c # cs) =
     (if startswith (c # cs) ''_custom'' then remove_custom (drop 6 cs)
      else c # remove_custom cs)"

fun split_comma :: "string \<Rightarrow> string list" where
  "split_comma [] = [[]]"
| "split_comma (c # cs) =
     (if c = CHR '','' then [] # split_comma cs
      else (case split_comma cs of [] \<Rightarrow> [[c]] | w # ws \<Rightarrow> (c # w) # ws))"

definition path_join :: "string \<Rightarrow> string \<Rightarrow> string" where
  "path_join a b =
     (if startswith b ''/'' then b
      else if a = [] \<or> endswith a ''/'' then a @ b
      else a @ ''/'' @ b)"

text \<open>
  \<open>xs.sort(key=f)\<close> where \<open>f\<close> may raise: Python computes every key first and
  leaves the list as it was when one of them raises; otherwise the sort is stable.
\<close>

fun all_keys :: "('a \<Rightarrow> int result) \<Rightarrow> 'a list \<Rightarrow> int list result" where
  "all_keys f [] = Inr []"
| "all_keys f (x # xs) = bnd (f x) (\<lambda>k. bnd (all_keys f xs) (\<lambda>ks. Inr (k # ks)))"

definition py_sort :: "('a \<Rightarrow> int result) \<Rightarrow> 'a list \<Rightarrow> 'a list result" where
  "py_sort f xs =
     bnd (all_keys f xs) (\<lambda>ks. Inr (map snd (sort_key fst (zip ks xs))))"


section \<open>The host application: the objects FCBinding.py reads and changes\<close>

text \<open>
  A \<open>QAction\<close>: its text, its icon (by name; \<open>None\<close> stands for an
  \<open>icon()\<close> that is \<open>None\<close>) and its data. Actions are shared objects: tool
  buttons refer to them by identity (a number), and the host keeps the store
  from identities to actions, which \<open>setText\<close> and \<open>setIcon\<close> update.
\<close>

record action =
  a_text :: string
  a_icon :: "string option"
  a_data :: "string option"

text \<open>
  A \<open>QToolButton\<close> of a host toolbar: \<open>text()\<close>, \<open>defaultAction()\<close> (\<open>None\<close>
  when it has none) and \<open>menu()\<close>. Tool buttons are objects too: the lists of the
  source hold them by identity, and the host keeps the store from identities to
  tool buttons, so that \<open>text()\<close> is read from the button as it is at that time.
\<close>

record toolbutton =
  b_text :: string
  b_action :: "nat option"
  b_menu :: "nat option"

text \<open>A \<open>QToolBar\<close> child of the main window: \<open>objectName()\<close>, its
  \<open>QToolButton\<close> children, and whether \<open>hide()\<close> was called on it.\<close>

record qtoolbar =
  tb_name :: string
  tb_buttons :: "nat list"
  tb_hidden :: bool

text \<open>A command: \<open>getAction()\<close> and the \<open>menuText\<close> and \<open>pixmap\<close> entries
  of \<open>getInfo()\<close>.\<close>

record command =
  c_actions :: "nat list"
  c_menuText :: string
  c_pixmap :: string

text \<open>A workbench object: \<open>name()\<close>, \<open>MenuText\<close>, \<open>Icon\<close>, whether it has
  the attribute \<open>__Workbench__\<close>, and \<open>listToolbars()\<close>.\<close>

record workbench =
  wb_name :: string
  wb_MenuText :: string
  wb_Icon :: string
  wb_loaded :: bool
  wb_toolbars :: "string list"

text \<open>Calls that leave the modelled program: \<open>LoadDesign_Ribbon.main()\<close> and
  \<open>LoadSettings_Ribbon.main()\<close> of the sibling modules, whose code is not in the
  source file, and \<open>App.loadFile\<close>. They are recorded in the order they are
  made.\<close>

datatype host_call = LoadDesignMain | LoadSettingsMain | LoadFile string

text \<open>
  The host: \<open>Gui.listWorkbenches()\<close> (a dict, in iteration order),
  \<open>Gui.activeWorkbench()\<close>, the \<open>QToolBar\<close> children of the main window (in
  the order \<open>findChildren\<close> returns them), the commands (\<open>Gui.listCommands()\<close>
  in order, \<open>Gui.Command.get\<close> by name), the stores of the actions and of the
  tool buttons, the text that the toolkit lets a tool button show for the text
  of its default action (\<open>buttonText\<close>), the parameter store
  (\<open>App.ParamGet(path).GetGroups()\<close> and \<open>App.ParamGet(path).GetString(key)\<close>),
  and the calls made to the sibling modules and to \<open>App.loadFile\<close>.
\<close>

record host =
  workbenches :: "(string \<times> workbench) list"
  activeWorkbench :: workbench
  toolbars :: "qtoolbar list"
  commands :: "(string \<times> command) list"
  actions :: "nat \<Rightarrow> action"
  buttons :: "nat \<Rightarrow> toolbutton"
  buttonText :: "string \<Rightarrow> string"
  GetGroups :: "string \<Rightarrow> string list"
  GetString :: "string \<Rightarrow> string \<Rightarrow> string"
  calls :: "host_call list"

text \<open>
  Modelled from the spec: what the toolkit does when an action has changed, which
  the source relies on and does not contain. Every tool button that has the
  action as its default action takes its text from the action again.
\<close>

definition actionChanged :: "host \<Rightarrow> nat \<Rightarrow> host" where
  "actionChanged h a =
     h\<lparr>buttons := (\<lambda>b. if b_action (buttons h b) = Some a
                         then (buttons h b)\<lparr>b_text := buttonText h (a_text (actions h a))\<rparr>
                         else buttons h b)\<rparr>"

text \<open>
  Modelled from the spec: \<open>action.setText(text)\<close> and \<open>action.setIcon(icon)\<close> of
  the toolkit, which the source only calls. Setting the text an action already
  has changes nothing; any other text, and any icon, changes the action.
\<close>

definition setText :: "host \<Rightarrow> nat \<Rightarrow> string \<Rightarrow> host" where
  "setText h a t =
     (if a_text (actions h a) = t then h
      else actionChanged (h\<lparr>actions := (actions h)(a := (actions h a)\<lparr>a_text := t\<rparr>)\<rparr>) a)"

definition setIcon :: "host \<Rightarrow> nat \<Rightarrow> string \<Rightarrow> host" where
  "setIcon h a i =
     actionChanged (h\<lparr>actions := (actions h)(a := (actions h a)\<lparr>a_icon := Some i\<rparr>)\<rparr>) a"

text \<open>Modelled from the spec: \<open>Gui.activateWorkbench(name)\<close> of the host, which
  the source only calls. An unknown name raises; otherwise the workbench
  registered under the name becomes the one \<open>Gui.activeWorkbench()\<close> returns.\<close>

definition activateWorkbench :: "host \<Rightarrow> string \<Rightarrow> host result" where
  "activateWorkbench h n =
     (case map_of (workbenches h) n of
        None \<Rightarrow> Inl KeyError
      | Some wb \<Rightarrow> Inr (h\<lparr>activeWorkbench := wb\<rparr>))"

text \<open>Modelled from the spec: \<open>mw.findChildren(QToolBar, name)\<close> and
  \<open>mw.findChild(QToolBar, name)\<close> of the host toolkit, which the source only
  calls: the toolbars with that object name, or the first of them (\<open>None\<close> when
  there is none); an empty name matches every toolbar.\<close>

definition findChildren :: "host \<Rightarrow> string \<Rightarrow> qtoolbar list" where
  "findChildren h n = filter (\<lambda>tb. n = [] \<or> tb_name tb = n) (toolbars h)"

definition findChild :: "host \<Rightarrow> string \<Rightarrow> qtoolbar option" where
  "findChild h n = (case findChildren h n of [] \<Rightarrow> None | tb # _ \<Rightarrow> Some tb)"

section \<open>The ribbon widget\<close>

datatype button_size = Small | Medium | Large

text \<open>
  A button of a ribbon panel, as \<open>addSmallButton\<close>, \<open>addMediumButton\<close> or
  \<open>addLargeButton\<close> creates it from \<open>action.text()\<close>, \<open>action.icon()\<close> and the
  arguments \<open>showText\<close> and \<open>fixedHeight\<close> (\<open>None\<close> for \<open>False\<close>), with the
  action set by \<open>setDefaultAction\<close> and the menu by \<open>setMenu\<close>. The alignment is
  the same constant in every call.
\<close>

record ribbon_button =
  rb_size :: button_size
  rb_text :: string
  rb_icon :: "string option"
  rb_showText :: bool
  rb_fixedHeight :: "int option"
  rb_action :: nat
  rb_menu :: "nat option"

record panel =
  p_title :: string
  p_buttons :: "ribbon_button list"

text \<open>A tab of the tab bar (its text and its icon) and a category of the ribbon
  (its title and its panels). \<open>addCategory\<close> makes one of each, with the same
  text; the ribbon finds a category by its title.\<close>

record tab =
  tab_text :: string
  tab_icon :: string

record category =
  cat_title :: string
  cat_panels :: "panel list"

text \<open>The module-level \<open>QTimer\<close>: how many times \<open>onWbActivated\<close> was connected
  to \<open>timeout\<close>, the single-shot flag, and the interval it was started with
  (\<open>None\<close> while it was never started).\<close>

record qtimer =
  t_slots :: nat
  t_singleShot :: bool
  t_started :: "nat option"

text \<open>
  Modelled from the spec: the constants of the module \<open>Parameters_Ribbon\<close> that
  \<open>buildPanels\<close> passes to the buttons it adds; the module is not in the source
  file.
\<close>

record parameters =
  SHOW_ICON_TEXT_SMALL :: bool
  SHOW_ICON_TEXT_MEDIUM :: bool
  SHOW_ICON_TEXT_LARGE :: bool
  ICON_SIZE_SMALL :: int
  ICON_SIZE_MEDIUM :: int

text \<open>
  The state of the program: the class attributes of \<open>ModernMenu\<close>
  (\<open>ribbonStructure\<close>, \<open>wbNameMapping\<close>, \<open>isWbLoaded\<close>), the attribute
  \<open>MainWindowLoaded\<close>, the widget (the tabs, the categories, the current index of
  the tab bar, the actions of the quick access buttons), the module-level
  \<open>timer\<close> and \<open>pathScripts\<close>, the constants of \<open>Parameters_Ribbon\<close>, and the
  host. The host delivers the signals \<open>workbenchActivated\<close> and \<open>timeout\<close> and
  the clicks on tabs: each delivery is a call of the slot.
\<close>

record ModernMenu =
  ribbonStructure :: json
  wbNameMapping :: "string \<rightharpoonup> string"
  isWbLoaded :: "string \<rightharpoonup> bool"
  MainWindowLoaded :: bool
  tabs :: "tab list"
  categories :: "category list"
  currentIndex :: int
  quickAccess :: "nat list"
  timer :: qtimer
  pathScripts :: string
  parameters :: parameters
  gui :: host

text \<open>Modelled from the spec: the tab bar of the ribbon widget, which the source
  only calls. \<open>tabBar().tabText(i)\<close> is the label of tab \<open>i\<close> (empty for an index
  that is no tab), \<open>tabBar().indexOf(label)\<close> is the index of the first tab with
  the label (\<open>-1\<close> when there is none), and \<open>tabBar().setCurrentIndex(i)\<close> makes
  \<open>i\<close> the current index (an index that is no tab is ignored).\<close>

definition validIndex :: "ModernMenu \<Rightarrow> int \<Rightarrow> bool" where
  "validIndex s i = (0 \<le> i \<and> i < int (length (tabs s)))"

definition tabText :: "ModernMenu \<Rightarrow> int \<Rightarrow> string" where
  "tabText s i = (if validIndex s i then tab_text (tabs s ! nat i) else [])"

definition indexOf :: "ModernMenu \<Rightarrow> string \<Rightarrow> int" where
  "indexOf s label =
     (case list_find label (map tab_text (tabs s)) of None \<Rightarrow> - 1 | Some i \<Rightarrow> int i)"

definition setCurrentIndex :: "ModernMenu \<Rightarrow> int \<Rightarrow> ModernMenu" where
  "setCurrentIndex s i = (if validIndex s i then s\<lparr>currentIndex := i\<rparr> else s)"

text \<open>
  Modelled from the spec: \<open>self.currentCategory()\<close> of the ribbon widget, which the
  source only calls. It is the category whose title is the text of the current
  tab, and the call raises KeyError when no category has that title.
  \<open>addPanels\<close> puts new panels at the end of that category.
\<close>

definition hasCurrentCategory :: "ModernMenu \<Rightarrow> bool" where
  "hasCurrentCategory s =
     (\<exists>c \<in> set (categories s). cat_title c = tabText s (currentIndex s))"

fun addToCategory :: "string \<Rightarrow> panel list \<Rightarrow> category list \<Rightarrow> category list" where
  "addToCategory title ps [] = []"
| "addToCategory title ps (c # cs) =
     (if cat_title c = title then c\<lparr>cat_panels := cat_panels c @ ps\<rparr> # cs
      else c # addToCategory title ps cs)"

definition addPanels :: "ModernMenu \<Rightarrow> panel list \<Rightarrow> category list" where
  "addPanels s panels = addToCategory (tabText s (currentIndex s)) panels (categories s)"

section \<open>Collecting the toolbars and their buttons\<close>

text \<open>
  \<open>List_ReturnCustomToolbars\<close>: for every workbench name but \<open>NoneWorkbench\<close>
  (the first test of the source, \<open>str(WorkBenchName) != "" or WorkBenchName is not
  None\<close>, holds for every key of the dict), the \<open>Name\<close> of each group under its
  \<open>Toolbar\<close> parameter, paired with the workbench name.
\<close>

definition List_ReturnCustomToolbars :: "host \<Rightarrow> (string \<times> string) list" where
  "List_ReturnCustomToolbars h =
     concat (map (\<lambda>WorkBenchName.
        if WorkBenchName \<noteq> ''NoneWorkbench''
        then map (\<lambda>Group.
               (GetString h (''User parameter:BaseApp/Workbench/'' @ WorkBenchName
                               @ ''/Toolbar/'' @ Group) ''Name'',
                WorkBenchName))
             (GetGroups h (''User parameter:BaseApp/Workbench/'' @ WorkBenchName @ ''/Toolbar''))
        else [])
       (map fst (workbenches h)))"

text \<open>
  \<open>List_AddCustomToolbarsToWorkbench\<close>. The loop over \<open>Gui.listCommands()\<close> for
  one item \<open>(key, value)\<close> of the commands of a custom panel: the flag is \<open>False\<close>
  when an exception left the outer \<open>try\<close> (\<open>Gui.Command.get\<close> gave \<open>None\<close>);
  inside the inner \<open>try\<close>, a \<open>value\<close> that is no string (TypeError) or names no
  toolbar (\<open>findChild\<close> gives \<open>None\<close>) goes on with the next command.
\<close>

fun commandLoop ::
  "host \<Rightarrow> string \<Rightarrow> json \<Rightarrow> string list \<Rightarrow> nat list \<Rightarrow> nat list \<times> bool" where
  "commandLoop h key v [] ButtonList = (ButtonList, True)"
| "commandLoop h key v (CommandName # ns) ButtonList =
     (case map_of (commands h) CommandName of
        None \<Rightarrow> (ButtonList, False)
      | Some Command \<Rightarrow>
          if c_menuText Command = key then
            (case v of
               JStr OriginalName \<Rightarrow>
                 (case findChild h OriginalName of
                    None \<Rightarrow> commandLoop h key v ns ButtonList
                  | Some OriginalToolBar \<Rightarrow>
                      commandLoop h key v ns
                        (ButtonList
                           @ filter (\<lambda>Child. b_text (buttons h Child) = c_menuText Command)
                               (tb_buttons OriginalToolBar)))
             | _ \<Rightarrow> commandLoop h key v ns ButtonList)
          else commandLoop h key v ns ButtonList)"

fun itemsLoop :: "host \<Rightarrow> (string \<times> json) list \<Rightarrow> nat list \<Rightarrow> nat list" where
  "itemsLoop h [] ButtonList = ButtonList"
| "itemsLoop h ((key, v) # kvs) ButtonList =
     (case commandLoop h key v (map fst (commands h)) ButtonList of
        (ButtonList', True) \<Rightarrow> itemsLoop h kvs ButtonList'
      | (ButtonList', False) \<Rightarrow> ButtonList')"

definition List_AddCustomToolbarsToWorkbench ::
  "json \<Rightarrow> host \<Rightarrow> string \<Rightarrow> string \<Rightarrow> nat list" where
  "List_AddCustomToolbarsToWorkbench rs h WorkBenchName CustomToolbar =
     (case bnd (getpath rs [''customToolbars'', WorkBenchName, CustomToolbar, ''commands''])
               py_items of
        Inl e \<Rightarrow> []
      | Inr Commands \<Rightarrow> itemsLoop h Commands [])"

text \<open>
  The custom panels of \<open>buildPanels\<close> (lines 342 to 362): each custom panel is
  appended to the list of toolbars, then the original toolbar of each of its
  commands is removed (\<open>list.remove\<close>; a missing one, or a value that is no
  string, raises and the loop continues). An exception outside the inner
  \<open>try\<close> ends the whole loop, keeping what was appended.
\<close>

fun removeOriginals :: "json \<Rightarrow> string \<Rightarrow> string \<Rightarrow> string list \<Rightarrow> string list \<Rightarrow> string list" where
  "removeOriginals rs wbn CustomPanel [] L = L"
| "removeOriginals rs wbn CustomPanel (Command # cs) L =
     (case getpath rs [''customToolbars'', wbn, CustomPanel, ''commands'', Command] of
        Inr (JStr OriginalToolbar) \<Rightarrow>
          removeOriginals rs wbn CustomPanel cs (remove1 OriginalToolbar L)
      | _ \<Rightarrow> removeOriginals rs wbn CustomPanel cs L)"

fun customPanels :: "json \<Rightarrow> string \<Rightarrow> string list \<Rightarrow> string list \<Rightarrow> string list" where
  "customPanels rs wbn [] L = L"
| "customPanels rs wbn (CustomPanel # ps) L =
     (case bnd (getpath rs [''customToolbars'', wbn, CustomPanel, ''commands'']) py_iter of
        Inl e \<Rightarrow> L @ [CustomPanel]
      | Inr Commands \<Rightarrow>
          customPanels rs wbn ps (removeOriginals rs wbn CustomPanel Commands (L @ [CustomPanel])))"

definition addCustomPanels :: "json \<Rightarrow> string \<Rightarrow> string list \<Rightarrow> string list" where
  "addCustomPanels rs wbn L =
     (case bnd (getpath rs [''customToolbars'', wbn]) py_iter of
        Inl e \<Rightarrow> L
      | Inr ps \<Rightarrow> customPanels rs wbn ps L)"

text \<open>The sort of the toolbars (lines 364 to 384): any exception leaves the list
  as it is.\<close>

definition SortToolbars :: "json \<Rightarrow> string \<Rightarrow> int result" where
  "SortToolbars ToolbarOrder toolbar =
     (if toolbar = [] then Inr (- 1)
      else case index_of ToolbarOrder toolbar of
             Inl ValueError \<Rightarrow> Inr 999999
           | r \<Rightarrow> r)"

definition sortToolbars :: "json \<Rightarrow> string \<Rightarrow> string list \<Rightarrow> string list" where
  "sortToolbars rs wbn L =
     (case bnd (getpath rs [''workbenches'', wbn, ''toolbars'', ''order''])
               (\<lambda>ToolbarOrder. py_sort (SortToolbars ToolbarOrder) L) of
        Inl e \<Rightarrow> L
      | Inr L' \<Rightarrow> L')"

text \<open>The list that the main loop of \<open>buildPanels\<close> runs over.\<close>

definition ListToolbars :: "json \<Rightarrow> host \<Rightarrow> string list" where
  "ListToolbars rs h =
     (let workbench = activeWorkbench h; workbenchName = wb_name workbench in
      sortToolbars rs workbenchName
        (addCustomPanels rs workbenchName
          (wb_toolbars workbench
             @ map fst (filter (\<lambda>CustomToolbar. snd CustomToolbar = workbenchName)
                          (List_ReturnCustomToolbars h)))))"

text \<open>The buttons of one toolbar (lines 399 to 407): the tool buttons of the first
  host toolbar of that name (none when there is no such toolbar), then the custom
  ones.\<close>

definition collectButtons :: "json \<Rightarrow> host \<Rightarrow> string \<Rightarrow> string \<Rightarrow> nat list" where
  "collectButtons rs h wbn toolbar =
     (case findChildren h toolbar of [] \<Rightarrow> [] | TB # _ \<Rightarrow> tb_buttons TB)
       @ List_AddCustomToolbarsToWorkbench rs h wbn toolbar"

text \<open>The sort of the buttons (lines 409 to 440); nothing catches its exceptions.\<close>

definition sortButtons :: "host \<Rightarrow> json \<Rightarrow> nat \<Rightarrow> int result" where
  "sortButtons h positionsList button =
     (if b_text (buttons h button) = [] then Inr (- 1)
      else case b_action (buttons h button) of
             None \<Rightarrow> Inl AttributeError
           | Some a \<Rightarrow>
               (case index_of positionsList (a_text (actions h a)) of
                  Inl ValueError \<Rightarrow> Inr 999999
                | r \<Rightarrow> r))"

definition orderButtons ::
  "json \<Rightarrow> host \<Rightarrow> string \<Rightarrow> string \<Rightarrow> nat list \<Rightarrow> nat list result" where
  "orderButtons rs h wbn toolbar allButtons =
     bnd (getitem rs ''workbenches'') (\<lambda>wbs.
     bnd (contains wbn wbs) (\<lambda>inWorkbenches.
       if \<not> inWorkbenches then Inr allButtons
       else
         bnd (getpath rs [''workbenches'', wbn, ''toolbars'']) (\<lambda>tbs.
         bnd (contains toolbar tbs) (\<lambda>inToolbars.
           if \<not> inToolbars then Inr allButtons
           else
             bnd (getpath rs [''workbenches'', wbn, ''toolbars'', toolbar]) (\<lambda>entry.
             bnd (contains ''order'' entry) (\<lambda>hasOrder.
               if \<not> hasOrder then Inr allButtons
               else
                 bnd (getpath rs [''workbenches'', wbn, ''toolbars'', toolbar, ''order''])
                   (\<lambda>positionsList. py_sort (sortButtons h positionsList) allButtons)))))))"

section \<open>Adding the buttons of one panel\<close>

text \<open>\<open>ribbonStructure["workbenches"][wb]["toolbars"][toolbar]["commands"][action.data()]\<close>.\<close>

definition commandEntry :: "json \<Rightarrow> string \<Rightarrow> string \<Rightarrow> string option \<Rightarrow> json result" where
  "commandEntry rs wbn toolbar d =
     bnd (getpath rs [''workbenches'', wbn, ''toolbars'', toolbar, ''commands''])
       (\<lambda>cmds. getitem_data cmds d)"

text \<open>
  The alternative text (lines 457 to 466): a KeyError keeps the text of the
  action; any other exception leaves the \<open>try\<close> of the button. \<open>setText\<close> takes
  \<open>None\<close> (a JSON \<open>null\<close>) as the empty text and raises TypeError on any other
  value that is no string.
\<close>

definition overrideText :: "json \<Rightarrow> string \<Rightarrow> string \<Rightarrow> nat \<Rightarrow> host \<Rightarrow> host result" where
  "overrideText rs wbn toolbar a h =
     (case bnd (commandEntry rs wbn toolbar (a_data (actions h a))) (\<lambda>e. getitem e ''text'') of
        Inr (JStr text) \<Rightarrow> Inr (setText h a text)
      | Inr JNull \<Rightarrow> Inr (setText h a [])
      | Inr _ \<Rightarrow> Inl TypeError
      | Inl KeyError \<Rightarrow> Inr h
      | Inl e \<Rightarrow> Inl e)"

text \<open>
  The icon of an action without one (lines 468 to 473): the entry of the command
  is taken as a command name; \<open>Gui.Command.get\<close> raises on a value that is no
  string and gives \<open>None\<close> for an unknown name.
\<close>

definition defaultIcon :: "json \<Rightarrow> string \<Rightarrow> string \<Rightarrow> nat \<Rightarrow> host \<Rightarrow> host result" where
  "defaultIcon rs wbn toolbar a h =
     (if a_icon (actions h a) \<noteq> None then Inr h
      else case commandEntry rs wbn toolbar (a_data (actions h a)) of
             Inl e \<Rightarrow> Inl e
           | Inr (JStr commandName) \<Rightarrow>
               (case map_of (commands h) commandName of
                  None \<Rightarrow> Inl AttributeError
                | Some c \<Rightarrow> Inr (setIcon h a (c_pixmap c)))
           | Inr _ \<Rightarrow> Inl TypeError)"

text \<open>The alternative icon (lines 475 to 484); \<open>Gui.getIcon\<close> raises on a value
  that is no string.\<close>

definition overrideIcon :: "json \<Rightarrow> string \<Rightarrow> string \<Rightarrow> nat \<Rightarrow> host \<Rightarrow> host result" where
  "overrideIcon rs wbn toolbar a h =
     (case bnd (commandEntry rs wbn toolbar (a_data (actions h a))) (\<lambda>e. getitem e ''icon'') of
        Inr (JStr icon_Json) \<Rightarrow> Inr (if icon_Json \<noteq> [] then setIcon h a icon_Json else h)
      | Inr _ \<Rightarrow> Inl TypeError
      | Inl KeyError \<Rightarrow> Inr h
      | Inl e \<Rightarrow> Inl e)"

text \<open>The button size (lines 486 to 492): \<open>small\<close> on a KeyError.\<close>

definition buttonSize :: "json \<Rightarrow> string \<Rightarrow> string \<Rightarrow> string option \<Rightarrow> json result" where
  "buttonSize rs wbn toolbar d =
     (case bnd (commandEntry rs wbn toolbar d) (\<lambda>e. getitem e ''size'') of
        Inl KeyError \<Rightarrow> Inr (JStr ''small'')
      | r \<Rightarrow> r)"

text \<open>
  Lines 494 to 526: \<open>addSmallButton\<close>, \<open>addMediumButton\<close> or \<open>addLargeButton\<close>
  with the text and icon of the action and the \<open>showText\<close> and \<open>fixedHeight\<close> of
  that size, then \<open>setDefaultAction(action)\<close> and the menu of the source button;
  NotImplementedError for any other size.
\<close>

definition addSizedButton ::
  "parameters \<Rightarrow> json \<Rightarrow> action \<Rightarrow> nat \<Rightarrow> toolbutton \<Rightarrow> ribbon_button result" where
  "addSizedButton P sz act a button =
     (let btn = \<lparr>rb_size = Small, rb_text = a_text act, rb_icon = a_icon act,
                 rb_showText = SHOW_ICON_TEXT_SMALL P,
                 rb_fixedHeight = Some (ICON_SIZE_SMALL P),
                 rb_action = a, rb_menu = b_menu button\<rparr> in
      if sz = JStr ''small'' then Inr btn
      else if sz = JStr ''medium''
        then Inr (btn\<lparr>rb_size := Medium, rb_showText := SHOW_ICON_TEXT_MEDIUM P,
                     rb_fixedHeight := Some (ICON_SIZE_MEDIUM P)\<rparr>)
      else if sz = JStr ''large''
        then Inr (btn\<lparr>rb_size := Large, rb_showText := SHOW_ICON_TEXT_LARGE P,
                     rb_fixedHeight := None\<rparr>)
      else Inl NotImplementedError)"

text \<open>
  The body of the \<open>try\<close> for one button (lines 453 to 526). It returns the host as
  the body left it, also when it raised: what \<open>setText\<close> and \<open>setIcon\<close> did before
  the exception stays done.
\<close>

definition tryButton ::
  "json \<Rightarrow> parameters \<Rightarrow> string \<Rightarrow> string \<Rightarrow> nat \<Rightarrow> host \<Rightarrow> host \<times> ribbon_button result" where
  "tryButton rs P wbn toolbar button h =
     (case b_action (buttons h button) of
        None \<Rightarrow> (h, Inl AttributeError)
      | Some a \<Rightarrow>
          (case overrideText rs wbn toolbar a h of
             Inl e \<Rightarrow> (h, Inl e)
           | Inr h1 \<Rightarrow>
               (case defaultIcon rs wbn toolbar a h1 of
                  Inl e \<Rightarrow> (h1, Inl e)
                | Inr h2 \<Rightarrow>
                    (case overrideIcon rs wbn toolbar a h2 of
                       Inl e \<Rightarrow> (h2, Inl e)
                     | Inr h3 \<Rightarrow>
                         (h3,
                          bnd (buttonSize rs wbn toolbar (a_data (actions h3 a)))
                            (\<lambda>sz. addSizedButton P sz (actions h3 a) a (buttons h3 button)))))))"

text \<open>
  The loop over the buttons (lines 442 to 532), on the buttons of the panel so
  far, \<open>shadowList\<close> and the host. Each \<open>button.text()\<close> is read from the host as
  it is at that line: lines 447 and 450 before the body of the \<open>try\<close>, line 532
  after it.
\<close>

fun addButtons ::
  "json \<Rightarrow> parameters \<Rightarrow> string \<Rightarrow> string \<Rightarrow> nat list
     \<Rightarrow> ribbon_button list \<times> string list \<times> host
     \<Rightarrow> ribbon_button list \<times> string list \<times> host" where
  "addButtons rs P wbn toolbar [] st = st"
| "addButtons rs P wbn toolbar (button # bs) (btns, shadowList, h) =
     (if b_text (buttons h button) = [] then addButtons rs P wbn toolbar bs (btns, shadowList, h)
      else if b_text (buttons h button) \<in> set shadowList
        then addButtons rs P wbn toolbar bs (btns, shadowList, h)
      else
        (case tryButton rs P wbn toolbar button h of
           (h', Inl e) \<Rightarrow> addButtons rs P wbn toolbar bs (btns, shadowList, h')
         | (h', Inr btn) \<Rightarrow>
             addButtons rs P wbn toolbar bs
               (btns @ [btn], shadowList @ [b_text (buttons h' button)], h')))"

text \<open>The title that the panel of a toolbar ends with (lines 534 to 535).\<close>

definition panelTitle :: "string \<Rightarrow> string" where
  "panelTitle toolbar = (if endswith toolbar ''_custom'' then remove_custom toolbar else toolbar)"

text \<open>
  One pass of the main loop for a toolbar that is not skipped (lines 393 to
  535): the panel and the host afterwards. When the sort of the buttons raises,
  the panel is there already, with the name of the toolbar and no button.
\<close>

definition buildPanel ::
  "json \<Rightarrow> parameters \<Rightarrow> string \<Rightarrow> string \<Rightarrow> host \<Rightarrow> (panel \<times> host) outcome" where
  "buildPanel rs P wbn toolbar h =
     (case orderButtons rs h wbn toolbar (collectButtons rs h wbn toolbar) of
        Inl e \<Rightarrow> ((\<lparr>p_title = toolbar, p_buttons = []\<rparr>, h), Some e)
      | Inr allButtons \<Rightarrow>
          (case addButtons rs P wbn toolbar allButtons ([], [], h) of
             (btns, shadowList, h') \<Rightarrow>
               ((\<lparr>p_title = panelTitle toolbar, p_buttons = btns\<rparr>, h'), None)))"

section \<open>ModernMenu.buildPanels\<close>

text \<open>
  The main loop (lines 386 to 535), on the panels added so far and the host.
  \<open>hasCategory\<close> says whether \<open>self.currentCategory()\<close> finds a category.
\<close>

fun panelsLoop ::
  "json \<Rightarrow> parameters \<Rightarrow> string \<Rightarrow> bool \<Rightarrow> string list \<Rightarrow> panel list \<times> host
     \<Rightarrow> (panel list \<times> host) outcome" where
  "panelsLoop rs P wbn hasCategory [] st = (st, None)"
| "panelsLoop rs P wbn hasCategory (toolbar # ts) (panels, h) =
     (case bnd (getitem rs ''ignoredToolbars'') (contains toolbar) of
        Inl e \<Rightarrow> ((panels, h), Some e)
      | Inr ignored \<Rightarrow>
          if ignored then panelsLoop rs P wbn hasCategory ts (panels, h)
          else if toolbar = [] then panelsLoop rs P wbn hasCategory ts (panels, h)
          else if \<not> hasCategory then ((panels, h), Some KeyError)
          else
            (case buildPanel rs P wbn toolbar h of
               ((panel, h'), Some e) \<Rightarrow> ((panels @ [panel], h'), Some e)
             | ((panel, h'), None) \<Rightarrow>
                 panelsLoop rs P wbn hasCategory ts (panels @ [panel], h')))"

definition currentTabName :: "ModernMenu \<Rightarrow> string" where
  "currentTabName s = strip_amp (tabText s (currentIndex s))"

definition buildPanels :: "ModernMenu \<Rightarrow> ModernMenu outcome" where
  "buildPanels s =
     (let workbench = activeWorkbench (gui s);
          workbenchName = wb_name workbench;
          tabName = currentTabName s
      in case isWbLoaded s tabName of
           None \<Rightarrow> (s, Some KeyError)
         | Some True \<Rightarrow> (s, None)
         | Some False \<Rightarrow>
             (case panelsLoop (ribbonStructure s) (parameters s) workbenchName
                     (hasCurrentCategory s)
                     (ListToolbars (ribbonStructure s) (gui s)) ([], gui s) of
                ((panels, h), Some e) \<Rightarrow>
                  (s\<lparr>categories := addPanels s panels, gui := h\<rparr>, Some e)
              | ((panels, h), None) \<Rightarrow>
                  (s\<lparr>categories := addPanels s panels, gui := h,
                     isWbLoaded := (isWbLoaded s)(tabName \<mapsto> True)\<rparr>, None)))"

section \<open>The slots\<close>

text \<open>\<open>updateCurrentTab\<close> disconnects the slots while it sets the index, so no slot
  runs then.\<close>

definition updateCurrentTab :: "ModernMenu \<Rightarrow> ModernMenu" where
  "updateCurrentTab s =
     (let currentWbIndex = indexOf s (wb_MenuText (activeWorkbench (gui s)));
          currentTabIndex = currentIndex s
      in if currentWbIndex \<noteq> currentTabIndex then setCurrentIndex s currentWbIndex else s)"

definition hideClassicToolbars :: "ModernMenu \<Rightarrow> ModernMenu" where
  "hideClassicToolbars s =
     s\<lparr>gui := (gui s)\<lparr>toolbars :=
          map (\<lambda>toolbar.
                 if tb_name toolbar \<notin> set [[], ''draft_status_scale_widget'', ''draft_snap_widget'']
                 then toolbar\<lparr>tb_hidden := True\<rparr> else toolbar)
              (toolbars (gui s))\<rparr>\<rparr>"

text \<open>\<open>timer.timeout.connect(self.onWbActivated)\<close>, \<open>timer.setSingleShot(True)\<close>,
  \<open>timer.start(100)\<close>.\<close>

definition startRetryTimer :: "qtimer \<Rightarrow> qtimer" where
  "startRetryTimer t = \<lparr>t_slots = Suc (t_slots t), t_singleShot = True, t_started = Some 100\<rparr>"

definition onWbActivated :: "ModernMenu \<Rightarrow> ModernMenu outcome" where
  "onWbActivated s =
     (let s1 = hideClassicToolbars (updateCurrentTab s);
          workbench = activeWorkbench (gui s1)
      in if \<not> wb_loaded workbench
         then (s1\<lparr>timer := startRetryTimer (timer s1)\<rparr>, None)
         else buildPanels s1)"

definition onUserChangedWorkbench :: "ModernMenu \<Rightarrow> ModernMenu outcome" where
  "onUserChangedWorkbench s =
     (let index = currentIndex s;
          tabName = strip_amp (tabText s index)
      in case wbNameMapping s tabName of
           None \<Rightarrow> (s, Some KeyError)
         | Some n \<Rightarrow>
             (case activateWorkbench (gui s) n of
                Inl e \<Rightarrow> (s, Some e)
              | Inr h \<Rightarrow> onWbActivated (s\<lparr>gui := h\<rparr>)))"

section \<open>ModernMenu.createModernMenu and the constructor\<close>

text \<open>
  The quick access buttons (lines 135 to 148): \<open>Gui.Command.get\<close> gives \<open>None\<close>
  for an unknown command (AttributeError on \<open>getAction\<close>), and \<open>helpAction[0]\<close>
  raises on a command without actions.
\<close>

fun quickAccessLoop :: "host \<Rightarrow> string list \<Rightarrow> nat list \<Rightarrow> (nat list) outcome" where
  "quickAccessLoop h [] qa = (qa, None)"
| "quickAccessLoop h (commandName # cs) qa =
     (case map_of (commands h) commandName of
        None \<Rightarrow> (qa, Some AttributeError)
      | Some c \<Rightarrow>
          (case c_actions c of
             [] \<Rightarrow> (qa, Some IndexError)
           | a # _ \<Rightarrow> quickAccessLoop h cs (qa @ [a])))"

text \<open>
  Modelled from the spec: \<open>addCategory(name)\<close> of the ribbon widget, which the
  source only calls. The widget raises ValueError for a title that a category
  has already. Otherwise a category and its tab are added at the end. The first
  tab of a tab bar becomes the current one, and the tab bar then signals
  \<open>currentChanged\<close>: the constructor has connected \<open>onUserChangedWorkbench\<close> to it
  (line 96) before it calls \<open>createModernMenu\<close>, so the slot runs inside
  \<open>addCategory\<close>. The toolkit reports an exception of a slot and goes on, with
  the state the slot has left.
\<close>

definition addCategory :: "ModernMenu \<Rightarrow> string \<Rightarrow> ModernMenu outcome" where
  "addCategory s name =
     (if name \<in> set (map cat_title (categories s)) then (s, Some ValueError)
      else
        (let s1 = s\<lparr>tabs := tabs s @ [\<lparr>tab_text = name, tab_icon = []\<rparr>],
                    categories := categories s @ [\<lparr>cat_title = name, cat_panels = []\<rparr>]\<rparr>
         in if tabs s = [] then (fst (onUserChangedWorkbench (s1\<lparr>currentIndex := 0\<rparr>)), None)
            else (s1, None)))"

text \<open>Modelled from the spec: \<open>tabBar().setTabIcon(i, icon)\<close> of the toolkit, which
  the source only calls; an index that is no tab is ignored.\<close>

definition setTabIcon :: "ModernMenu \<Rightarrow> int \<Rightarrow> string \<Rightarrow> ModernMenu" where
  "setTabIcon s i icon =
     (if validIndex s i
      then s\<lparr>tabs := (tabs s)[nat i := (tabs s ! nat i)\<lparr>tab_icon := icon\<rparr>]\<rparr>
      else s)"

text \<open>The inner loop of lines 163 to 181, over the items of
  \<open>Gui.listWorkbenches()\<close>, for one entry of the ordered list.\<close>

fun addWorkbenchTabs ::
  "string \<Rightarrow> (string \<times> workbench) list \<Rightarrow> ModernMenu \<Rightarrow> ModernMenu outcome" where
  "addWorkbenchTabs ordered [] s = (s, None)"
| "addWorkbenchTabs ordered ((workbenchName, workbench) # ws) s =
     (if workbenchName = ordered then
        (case (if workbenchName = [] then Inr True
               else bnd (getitem (ribbonStructure s) ''ignoredWorkbenches'')
                      (contains (wb_MenuText workbench))) of
           Inl e \<Rightarrow> (s, Some e)
         | Inr skip \<Rightarrow>
             if skip then addWorkbenchTabs ordered ws s
             else
               (let name = wb_MenuText workbench in
                case addCategory
                       (s\<lparr>wbNameMapping := (wbNameMapping s)(name \<mapsto> workbenchName),
                          isWbLoaded := (isWbLoaded s)(name \<mapsto> False)\<rparr>)
                       name of
                  (s1, Some e) \<Rightarrow> (s1, Some e)
                | (s1, None) \<Rightarrow>
                    addWorkbenchTabs ordered ws
                      (setTabIcon s1 (int (length (categories s1)) - 1) (wb_Icon workbench))))
      else addWorkbenchTabs ordered ws s)"

text \<open>The outer loop: \<open>Gui.listWorkbenches()\<close> is called again for every entry.\<close>

fun orderedLoop :: "string list \<Rightarrow> ModernMenu \<Rightarrow> ModernMenu outcome" where
  "orderedLoop [] s = (s, None)"
| "orderedLoop (ordered # os) s =
     andThen (addWorkbenchTabs ordered (workbenches (gui s)) s) (orderedLoop os)"

definition WorkbenchOrderedList :: "host \<Rightarrow> string list" where
  "WorkbenchOrderedList h =
     split_comma (GetString h ''User parameter:BaseApp/Preferences/Workbenches/'' ''Ordered'')"

text \<open>
  \<open>createModernMenu\<close>: the quick access buttons, then one category per workbench;
  the ordered list is read before the loop over it. The rest of the method
  (lines 183 to 250) sets up the help button, the pin button and the application
  menu; these toolkit calls are taken to succeed, and what they set up is no
  part of the state here.
\<close>

definition createModernMenu :: "ModernMenu \<Rightarrow> ModernMenu outcome" where
  "createModernMenu s =
     (case bnd (getitem (ribbonStructure s) ''quickAccessCommands'') py_iter of
        Inl e \<Rightarrow> (s, Some e)
      | Inr names \<Rightarrow>
          (case quickAccessLoop (gui s) names (quickAccess s) of
             (qa, Some e) \<Rightarrow> (s\<lparr>quickAccess := qa\<rparr>, Some e)
           | (qa, None) \<Rightarrow>
               orderedLoop (WorkbenchOrderedList (gui s)) (s\<lparr>quickAccess := qa\<rparr>)))"

text \<open>
  The constructor. \<open>file\<close> is what opening RibbonStructure.json in the directory
  of the module and \<open>json.load\<close> give: the parsed value, or the exception of
  either. The base class constructor leaves an empty ribbon.
\<close>

definition ModernMenu_init :: "json result \<Rightarrow> ModernMenu \<Rightarrow> ModernMenu outcome" where
  "ModernMenu_init file s =
     (let s0 = s\<lparr>tabs := [], categories := [], currentIndex := - 1, quickAccess := [],
                 MainWindowLoaded := False\<rparr>
      in case file of
           Inl e \<Rightarrow> (s0, Some e)
         | Inr j \<Rightarrow>
             andThen (andThen (createModernMenu (s0\<lparr>ribbonStructure := j\<rparr>))
                        onUserChangedWorkbench)
               (\<lambda>s2. (s2\<lparr>MainWindowLoaded := True\<rparr>, None)))"

section \<open>The wrappers\<close>

definition hostCall :: "ModernMenu \<Rightarrow> host_call \<Rightarrow> ModernMenu" where
  "hostCall s c = s\<lparr>gui := (gui s)\<lparr>calls := calls (gui s) @ [c]\<rparr>\<rparr>"

definition loadDesignMenu :: "ModernMenu \<Rightarrow> ModernMenu" where
  "loadDesignMenu s = hostCall s LoadDesignMain"

definition loadSettingsMenu :: "ModernMenu \<Rightarrow> ModernMenu" where
  "loadSettingsMenu s = hostCall s LoadSettingsMain"

definition LoadMarcoFreeCAD :: "ModernMenu \<Rightarrow> string \<Rightarrow> ModernMenu" where
  "LoadMarcoFreeCAD s scriptName =
     (if MainWindowLoaded s then
        (let script = path_join (pathScripts s) scriptName in
         if endswith script ''.py'' then hostCall s (LoadFile script) else s)
      else s)"


section \<open>Predicates of the statements\<close>

text \<open>A toolbar name that the main loop of \<open>buildPanels\<close> does not skip: it is
  not empty, and the test \<open>toolbar in ribbonStructure["ignoredToolbars"]\<close> gives
  \<open>False\<close>.\<close>

definition shownToolbar :: "json \<Rightarrow> string \<Rightarrow> bool" where
  "shownToolbar rs toolbar =
     (toolbar \<noteq> [] \<and> bnd (getitem rs ''ignoredToolbars'') (contains toolbar) = Inr False)"

text \<open>The test \<open>workbench.MenuText in ribbonStructure["ignoredWorkbenches"]\<close>
  gives \<open>True\<close>.\<close>

definition ignoredWorkbench :: "json \<Rightarrow> workbench \<Rightarrow> bool" where
  "ignoredWorkbench rs workbench =
     (bnd (getitem rs ''ignoredWorkbenches'') (contains (wb_MenuText workbench)) = Inr True)"

text \<open>An item of \<open>Gui.listWorkbenches()\<close> that gets a tab for the entry
  \<open>ordered\<close> of the ordered list.\<close>

definition tabbedWorkbench :: "json \<Rightarrow> string \<Rightarrow> string \<times> workbench \<Rightarrow> bool" where
  "tabbedWorkbench rs ordered w =
     (fst w = ordered \<and> fst w \<noteq> [] \<and> \<not> ignoredWorkbench rs (snd w))"

text \<open>The action \<open>a\<close> is \<open>Gui.Command.get(commandName).getAction()[0]\<close>.\<close>

definition firstAction :: "host \<Rightarrow> string \<Rightarrow> nat \<Rightarrow> bool" where
  "firstAction h commandName a =
     (case map_of (commands h) commandName of
        None \<Rightarrow> False
      | Some c \<Rightarrow> (case c_actions c of [] \<Rightarrow> False | a' # _ \<Rightarrow> a = a'))"

text \<open>
  The host \<open>h'\<close> differs from the host \<open>h\<close> at most in the texts and icons of
  actions and in the texts of tool buttons: every tool button has the action and
  the menu it had, every action its data, and the rest of the host is the same.
\<close>

definition sameObjects :: "host \<Rightarrow> host \<Rightarrow> bool" where
  "sameObjects h h' =
     (workbenches h' = workbenches h \<and> activeWorkbench h' = activeWorkbench h \<and>
      toolbars h' = toolbars h \<and> commands h' = commands h \<and>
      buttonText h' = buttonText h \<and> GetGroups h' = GetGroups h \<and>
      GetString h' = GetString h \<and> calls h' = calls h \<and>
      (\<forall>a. a_data (actions h' a) = a_data (actions h a)) \<and>
      (\<forall>b. b_action (buttons h' b) = b_action (buttons h b) \<and>
           b_menu (buttons h' b) = b_menu (buttons h b)))"

text \<open>
  The loop over the buttons \<open>bs\<close> of a panel, started on the host \<open>h\<close>, when it
  reaches position \<open>i\<close> of the list: the buttons of the panel and \<open>shadowList\<close> so
  far, and the host as the passes before have left it.
\<close>

definition reached ::
  "json \<Rightarrow> parameters \<Rightarrow> string \<Rightarrow> string \<Rightarrow> nat list \<Rightarrow> host \<Rightarrow> nat
     \<Rightarrow> ribbon_button list \<times> string list \<times> host" where
  "reached rs P wbn toolbar bs h i = addButtons rs P wbn toolbar (take i bs) ([], [], h)"

text \<open>The button at position \<open>i\<close> passes the tests of lines 447 and 450: the text
  it has when the loop reaches it is not empty and not in \<open>shadowList\<close>.\<close>

definition offered ::
  "json \<Rightarrow> parameters \<Rightarrow> string \<Rightarrow> string \<Rightarrow> nat list \<Rightarrow> host \<Rightarrow> nat \<Rightarrow> bool" where
  "offered rs P wbn toolbar bs h i =
     (case reached rs P wbn toolbar bs h i of
        (btns, shadowList, hi) \<Rightarrow>
          b_text (buttons hi (bs ! i)) \<noteq> [] \<and> b_text (buttons hi (bs ! i)) \<notin> set shadowList)"

text \<open>The body of the \<open>try\<close> for the button at position \<open>i\<close>, on the host that the
  loop has reached there.\<close>

definition attempt ::
  "json \<Rightarrow> parameters \<Rightarrow> string \<Rightarrow> string \<Rightarrow> nat list \<Rightarrow> host \<Rightarrow> nat
     \<Rightarrow> host \<times> ribbon_button result" where
  "attempt rs P wbn toolbar bs h i =
     tryButton rs P wbn toolbar (bs ! i) (snd (snd (reached rs P wbn toolbar bs h i)))"

text \<open>
  What the pass at position \<open>i\<close> adds: nothing when the button is not offered or
  the body of the \<open>try\<close> raises, and otherwise the ribbon button together with
  the text that line 532 records, the text of the source button after the body.
\<close>

definition recordedAt ::
  "json \<Rightarrow> parameters \<Rightarrow> string \<Rightarrow> string \<Rightarrow> nat list \<Rightarrow> host \<Rightarrow> nat
     \<Rightarrow> (ribbon_button \<times> string) list" where
  "recordedAt rs P wbn toolbar bs h i =
     (if offered rs P wbn toolbar bs h i then
        (case attempt rs P wbn toolbar bs h i of
           (h', Inl e) \<Rightarrow> []
         | (h', Inr btn) \<Rightarrow> [(btn, b_text (buttons h' (bs ! i)))])
      else [])"

text \<open>The body of the \<open>try\<close> for the button at position \<open>i\<close> leaves the text of
  that button as it was.\<close>

definition keepsText ::
  "json \<Rightarrow> parameters \<Rightarrow> string \<Rightarrow> string \<Rightarrow> nat list \<Rightarrow> host \<Rightarrow> nat \<Rightarrow> bool" where
  "keepsText rs P wbn toolbar bs h i =
     (b_text (buttons (fst (attempt rs P wbn toolbar bs h i)) (bs ! i))
        = b_text (buttons (snd (snd (reached rs P wbn toolbar bs h i))) (bs ! i)))"

text \<open>
  The panel \<open>p\<close> is the one that a pass of the main loop makes of the toolbar on
  the host \<open>h\<close>: it has the title of the toolbar; the buttons that the loop runs
  over are the collected ones, each once, in the configured order; the ribbon
  buttons of the panel are, in that order, those of the positions that add one;
  and a ribbon button added for a source button has the very action object and
  the menu of that source button.
\<close>

definition panelOf ::
  "json \<Rightarrow> parameters \<Rightarrow> string \<Rightarrow> string \<Rightarrow> host \<Rightarrow> panel \<Rightarrow> bool" where
  "panelOf rs P wbn toolbar h p =
     (p_title p = panelTitle toolbar \<and>
      (case orderButtons rs h wbn toolbar (collectButtons rs h wbn toolbar) of
         Inl e \<Rightarrow> False
       | Inr bs \<Rightarrow>
           mset bs = mset (collectButtons rs h wbn toolbar) \<and>
           p_buttons p =
             map fst (concat (map (recordedAt rs P wbn toolbar bs h) [0..<length bs])) \<and>
           (\<forall>i<length bs. \<forall>x \<in> set (recordedAt rs P wbn toolbar bs h i).
              b_action (buttons h (bs ! i)) = Some (rb_action (fst x)) \<and>
              b_menu (buttons h (bs ! i)) = rb_menu (fst x))))"

text \<open>
  The states that come after a state \<open>s0\<close>: those that a sequence of calls of
  the methods of the class leads to, in any order, while the host may change in
  any way between two calls. The user selecting a tab makes it the current one
  and runs the slot \<open>onUserChangedWorkbench\<close> (line 121); the host signalling an
  activated workbench and the timer firing run the slot \<open>onWbActivated\<close> (lines
  122 and 313). A call that raises leaves the state that the method has reached.
\<close>

inductive later :: "ModernMenu \<Rightarrow> ModernMenu \<Rightarrow> bool" for s0 :: ModernMenu where
  start: "later s0 s0"
| hostChanged: "later s0 s \<Longrightarrow> later s0 (s\<lparr>gui := h\<rparr>)"
| tabSelected:
    "later s0 s \<Longrightarrow> validIndex s i \<Longrightarrow>
       later s0 (fst (onUserChangedWorkbench (s\<lparr>currentIndex := i\<rparr>)))"
| changed: "later s0 s \<Longrightarrow> later s0 (fst (onUserChangedWorkbench s))"
| activated: "later s0 s \<Longrightarrow> later s0 (fst (onWbActivated s))"
| updated: "later s0 s \<Longrightarrow> later s0 (updateCurrentTab s)"
| hidden: "later s0 s \<Longrightarrow> later s0 (hideClassicToolbars s)"
| built: "later s0 s \<Longrightarrow> later s0 (fst (buildPanels s))"
| created: "later s0 s \<Longrightarrow> later s0 (fst (createModernMenu s))"
| designMenu: "later s0 s \<Longrightarrow> later s0 (loadDesignMenu s)"
| settingsMenu: "later s0 s \<Longrightarrow> later s0 (loadSettingsMenu s)"
| macroLoaded: "later s0 s \<Longrightarrow> later s0 (LoadMarcoFreeCAD s scriptName)"

section \<open>A concrete host and ribbon structure\<close>

text \<open>
  A Part workbench with the toolbars File, Clipboard and Solids (and one with an
  empty name), a ribbon structure that ignores the toolbar Clipboard and the
  workbench with the menu text \<open>Test framework\<close>, orders the toolbars and the
  buttons of Solids, renames the command \<open>Part_Box\<close> to \<open>Cube\<close> as a large
  button, and gives \<open>Part_Cone\<close> a size that does not exist.
\<close>

definition ex_structure :: json where
  "ex_structure = JObj
     [(''quickAccessCommands'', JArr [''Std_Save'']),
      (''ignoredToolbars'', JArr [''Clipboard'']),
      (''ignoredWorkbenches'', JArr [''Test framework'']),
      (''customToolbars'', JObj []),
      (''workbenches'', JObj
         [(''PartWorkbench'', JObj
            [(''toolbars'', JObj
               [(''order'', JArr [''Solids'', ''File'']),
                (''Solids'', JObj
                   [(''order'', JArr [''Cylinder'', ''Box'']),
                    (''commands'', JObj
                       [(''Part_Box'', JObj [(''size'', JStr ''large''), (''text'', JStr ''Cube''),
                                             (''icon'', JStr [])]),
                        (''Part_Cone'', JObj [(''size'', JStr ''huge'')])])])])])])]"

definition ex_actions :: "nat \<Rightarrow> action" where
  "ex_actions n =
     (if n = 0 then \<lparr>a_text = ''Box'', a_icon = Some ''Part_Box'', a_data = Some ''Part_Box''\<rparr>
      else if n = 1 then
        \<lparr>a_text = ''Cylinder'', a_icon = Some ''Part_Cylinder'', a_data = Some ''Part_Cylinder''\<rparr>
      else if n = 2 then
        \<lparr>a_text = ''Cone'', a_icon = Some ''Part_Cone'', a_data = Some ''Part_Cone''\<rparr>
      else \<lparr>a_text = ''Save'', a_icon = Some ''document-save'', a_data = Some ''Std_Save''\<rparr>)"

text \<open>The tool buttons: Box, Cylinder (with a menu) and Cone, a second button of
  the action of Box, a button without text and action, and Save.\<close>

definition ex_buttons :: "nat \<Rightarrow> toolbutton" where
  "ex_buttons n =
     (if n = 0 then \<lparr>b_text = ''Box'', b_action = Some 0, b_menu = None\<rparr>
      else if n = 1 then \<lparr>b_text = ''Cylinder'', b_action = Some 1, b_menu = Some 7\<rparr>
      else if n = 2 then \<lparr>b_text = ''Cone'', b_action = Some 2, b_menu = None\<rparr>
      else if n = 3 then \<lparr>b_text = ''Box'', b_action = Some 0, b_menu = None\<rparr>
      else if n = 4 then \<lparr>b_text = [], b_action = None, b_menu = None\<rparr>
      else \<lparr>b_text = ''Save'', b_action = Some 3, b_menu = None\<rparr>)"

definition ex_part :: workbench where
  "ex_part = \<lparr>wb_name = ''PartWorkbench'', wb_MenuText = ''Part'', wb_Icon = ''PartWorkbench.svg'',
               wb_loaded = True, wb_toolbars = [''File'', ''Clipboard'', ''Solids'', []]\<rparr>"

definition ex_draft :: workbench where
  "ex_draft = \<lparr>wb_name = ''DraftWorkbench'', wb_MenuText = ''Draft'', wb_Icon = ''Draft.svg'',
                wb_loaded = False, wb_toolbars = []\<rparr>"

definition ex_test :: workbench where
  "ex_test = \<lparr>wb_name = ''TestWorkbench'', wb_MenuText = ''Test framework'', wb_Icon = ''Test.svg'',
               wb_loaded = False, wb_toolbars = []\<rparr>"

definition ex_solids :: "nat list" where
  "ex_solids = [0, 1, 2, 3, 4]"

definition ex_host :: host where
  "ex_host =
     \<lparr>workbenches = [(''PartWorkbench'', ex_part), (''TestWorkbench'', ex_test),
                      (''DraftWorkbench'', ex_draft)],
      activeWorkbench = ex_part,
      toolbars =
        [\<lparr>tb_name = ''File'', tb_buttons = [5], tb_hidden = False\<rparr>,
         \<lparr>tb_name = ''Solids'', tb_buttons = ex_solids, tb_hidden = False\<rparr>],
      commands =
        [(''Std_Save'', \<lparr>c_actions = [3], c_menuText = ''Save'', c_pixmap = ''document-save''\<rparr>),
         (''Part_Box'', \<lparr>c_actions = [0], c_menuText = ''Box'', c_pixmap = ''Part_Box''\<rparr>)],
      actions = ex_actions,
      buttons = ex_buttons,
      buttonText = (\<lambda>t. t),
      GetGroups = (\<lambda>path. []),
      GetString = (\<lambda>path key.
         if key = ''Ordered'' then ''DraftWorkbench,PartWorkbench,TestWorkbench,'' else []),
      calls = []\<rparr>"

definition ex_parameters :: parameters where
  "ex_parameters =
     \<lparr>SHOW_ICON_TEXT_SMALL = False, SHOW_ICON_TEXT_MEDIUM = True, SHOW_ICON_TEXT_LARGE = True,
      ICON_SIZE_SMALL = 24, ICON_SIZE_MEDIUM = 32\<rparr>"

text \<open>A ribbon on this host with the tabs of Draft (its label carries an \<open>&\<close>,
  the mark of a keyboard accelerator, which the title of the category does not)
  and Part, the tab of Part selected and no panel built yet.\<close>

definition ex_menu :: ModernMenu where
  "ex_menu =
     \<lparr>ribbonStructure = ex_structure,
      wbNameMapping = [''Draft'' \<mapsto> ''DraftWorkbench'', ''Part'' \<mapsto> ''PartWorkbench''],
      isWbLoaded = [''Draft'' \<mapsto> False, ''Part'' \<mapsto> False],
      MainWindowLoaded = True,
      tabs = [\<lparr>tab_text = ''&Draft'', tab_icon = ''Draft.svg''\<rparr>,
              \<lparr>tab_text = ''Part'', tab_icon = ''PartWorkbench.svg''\<rparr>],
      categories =
        [\<lparr>cat_title = ''Draft'', cat_panels = []\<rparr>, \<lparr>cat_title = ''Part'', cat_panels = []\<rparr>],
      currentIndex = 1,
      quickAccess = [3],
      timer = \<lparr>t_slots = 0, t_singleShot = False, t_started = None\<rparr>,
      pathScripts = ''/Mod/Ribbon/Scripts'',
      parameters = ex_parameters,
      gui = ex_host\<rparr>"

text \<open>The same ribbon with the tab of Draft selected while Part is active, and
  with Draft as the active workbench (which the host has not loaded yet).\<close>

definition ex_elsewhere :: ModernMenu where
  "ex_elsewhere = ex_menu\<lparr>currentIndex := 0\<rparr>"

definition ex_waiting :: ModernMenu where
  "ex_waiting = ex_menu\<lparr>gui := ex_host\<lparr>activeWorkbench := ex_draft\<rparr>\<rparr>"

text \<open>The state that \<open>buildPanels\<close> leaves, and the ribbon whose Part tab is
  marked as loaded from the start.\<close>

definition ex_built :: ModernMenu where
  "ex_built = fst (buildPanels ex_menu)"

definition ex_loaded :: ModernMenu where
  "ex_loaded = ex_menu\<lparr>isWbLoaded := [''Draft'' \<mapsto> False, ''Part'' \<mapsto> True]\<rparr>"

text \<open>A ribbon that differs from \<open>ex_menu\<close> in what \<open>buildPanels\<close> does not read,
  and one that differs from it in a constant of \<open>Parameters_Ribbon\<close>.\<close>

definition ex_other :: ModernMenu where
  "ex_other = ex_menu\<lparr>wbNameMapping := Map.empty, MainWindowLoaded := False, quickAccess := [],
                       pathScripts := [],
                       timer := \<lparr>t_slots = 2, t_singleShot = True, t_started = Some 100\<rparr>\<rparr>"

definition ex_labelled :: ModernMenu where
  "ex_labelled = ex_menu\<lparr>parameters := ex_parameters\<lparr>SHOW_ICON_TEXT_SMALL := True\<rparr>\<rparr>"

text \<open>The state before the constructor runs.\<close>

definition ex_blank :: ModernMenu where
  "ex_blank =
     \<lparr>ribbonStructure = JNull, wbNameMapping = Map.empty, isWbLoaded = Map.empty,
      MainWindowLoaded = False, tabs = [], categories = [], currentIndex = - 1, quickAccess = [],
      timer = \<lparr>t_slots = 0, t_singleShot = False, t_started = None\<rparr>,
      pathScripts = ''/Mod/Ribbon/Scripts'', parameters = ex_parameters, gui = ex_host\<rparr>"

text \<open>
  A ribbon structure with a custom panel \<open>Mine_custom\<close> that takes the command
  with the menu text \<open>Box\<close> from the toolbar Solids, and gives it a size that
  does not exist.
\<close>

definition ex_custom_structure :: json where
  "ex_custom_structure = JObj
     [(''quickAccessCommands'', JArr []),
      (''ignoredToolbars'', JArr [''Clipboard'']),
      (''ignoredWorkbenches'', JArr []),
      (''customToolbars'', JObj
         [(''PartWorkbench'', JObj
            [(''Mine_custom'', JObj [(''commands'', JObj [(''Box'', JStr ''Solids'')])])])]),
      (''workbenches'', JObj
         [(''PartWorkbench'', JObj
            [(''toolbars'', JObj
               [(''Mine_custom'', JObj
                   [(''commands'', JObj [(''Part_Box'', JObj [(''size'', JStr ''huge'')])])])])])])]"

definition ex_custom :: ModernMenu where
  "ex_custom = ex_menu\<lparr>ribbonStructure := ex_custom_structure\<rparr>"

text \<open>A ribbon structure that gives the commands \<open>Part_Box\<close> and \<open>Part_Cone\<close> of
  the toolbar Solids the same text, and one that gives \<open>Part_Box\<close> the text
  \<open>null\<close>.\<close>

definition ex_renamed_structure :: json where
  "ex_renamed_structure = JObj
     [(''quickAccessCommands'', JArr []),
      (''ignoredToolbars'', JArr []),
      (''ignoredWorkbenches'', JArr []),
      (''customToolbars'', JObj []),
      (''workbenches'', JObj
         [(''PartWorkbench'', JObj
            [(''toolbars'', JObj
               [(''Solids'', JObj
                   [(''commands'', JObj
                       [(''Part_Box'', JObj [(''text'', JStr ''Solid'')]),
                        (''Part_Cone'', JObj [(''text'', JStr ''Solid'')])])])])])])]"

definition ex_null_structure :: json where
  "ex_null_structure = JObj
     [(''quickAccessCommands'', JArr []),
      (''ignoredToolbars'', JArr []),
      (''ignoredWorkbenches'', JArr []),
      (''customToolbars'', JObj []),
      (''workbenches'', JObj
         [(''PartWorkbench'', JObj
            [(''toolbars'', JObj
               [(''Solids'', JObj
                   [(''commands'', JObj
                       [(''Part_Box'', JObj [(''text'', JNull)])])])])])])]"

definition ex_blank_structured :: ModernMenu where
  "ex_blank_structured = ex_blank\<lparr>ribbonStructure := ex_structure\<rparr>"

definition ex_renamed :: ModernMenu where
  "ex_renamed = ex_menu\<lparr>ribbonStructure := ex_renamed_structure\<rparr>"

definition ex_null :: ModernMenu where
  "ex_null = ex_menu\<lparr>ribbonStructure := ex_null_structure\<rparr>"


section \<open>Basic facts\<close>

lemma list_find_Some: "list_find x xs = Some i \<Longrightarrow> i < length xs \<and> xs ! i = x"
  by (induction xs arbitrary: i) (auto split: if_splits)

lemma list_find_None: "list_find x xs = None \<longleftrightarrow> x \<notin> set xs"
  by (induction xs) auto

lemma andThen_None: "andThen (s, None) f = f s"
  by (simp add: andThen_def)

lemma andThen_Some: "andThen (s, Some e) f = (s, Some e)"
  by (simp add: andThen_def)

lemma andThen_returns:
  "andThen r f = (s', None) \<Longrightarrow> \<exists>s1. r = (s1, None) \<and> f s1 = (s', None)"
  by (cases r; cases "snd r") (auto simp: andThen_def)

lemma titles_addToCategory: "map cat_title (addToCategory t ps cs) = map cat_title cs"
  by (induction cs) auto

lemma addToCategory_Nil: "addToCategory t [] cs = cs"
  by (induction cs) auto

lemma titles_addPanels: "map cat_title (addPanels s ps) = map cat_title (categories s)"
  by (simp add: addPanels_def titles_addToCategory)

lemma addPanels_Nil: "addPanels s [] = categories s"
  by (simp add: addPanels_def addToCategory_Nil)

lemma tabText_cong: "tabs s' = tabs s \<Longrightarrow> tabText s' i = tabText s i"
  by (simp add: tabText_def validIndex_def)

lemma validIndex_cong: "tabs s' = tabs s \<Longrightarrow> validIndex s' i = validIndex s i"
  by (simp add: validIndex_def)

lemma indexOf_cong: "tabs s' = tabs s \<Longrightarrow> indexOf s' l = indexOf s l"
  by (simp add: indexOf_def)

lemma hasCurrentCategory_cong:
  assumes "tabs s' = tabs s" "currentIndex s' = currentIndex s"
    "map cat_title (categories s') = map cat_title (categories s)"
  shows "hasCurrentCategory s' = hasCurrentCategory s"
proof -
  have e: "hasCurrentCategory s = (tabText s (currentIndex s) \<in> set (map cat_title (categories s)))" for s
    unfolding hasCurrentCategory_def by (metis (mono_tags, lifting) image_iff list.set_map)
  show ?thesis unfolding e assms(2,3) tabText_cong[OF assms(1)] ..
qed

text \<open>What \<open>setText\<close> and \<open>setIcon\<close> leave as it was.\<close>

lemma sameObjects_refl: "sameObjects h h"
  by (simp add: sameObjects_def)

lemma sameObjects_trans: "sameObjects h h1 \<Longrightarrow> sameObjects h1 h2 \<Longrightarrow> sameObjects h h2"
  by (simp add: sameObjects_def)

lemma sameObjects_actionChanged: "sameObjects h (actionChanged h a)"
  by (simp add: sameObjects_def actionChanged_def)

lemma sameObjects_setText: "sameObjects h (setText h a t)"
  by (simp add: sameObjects_def setText_def actionChanged_def)

lemma sameObjects_setIcon: "sameObjects h (setIcon h a i)"
  by (simp add: sameObjects_def setIcon_def actionChanged_def)

lemma overrideText_same: "overrideText rs wbn toolbar a h = Inr h' \<Longrightarrow> sameObjects h h'"
  by (auto simp: overrideText_def sameObjects_refl sameObjects_setText
      split: sum.splits json.splits py_error.splits)

lemma defaultIcon_same: "defaultIcon rs wbn toolbar a h = Inr h' \<Longrightarrow> sameObjects h h'"
  by (auto simp: defaultIcon_def sameObjects_refl sameObjects_setIcon
      split: sum.splits json.splits option.splits if_splits)

lemma overrideIcon_same: "overrideIcon rs wbn toolbar a h = Inr h' \<Longrightarrow> sameObjects h h'"
  by (auto simp: overrideIcon_def sameObjects_refl sameObjects_setIcon
      split: sum.splits json.splits py_error.splits if_splits)

lemma tryButton_same:
  assumes "tryButton rs P wbn toolbar button h = (h', r)"
  shows "sameObjects h h'"
proof (cases "b_action (buttons h button)")
  case None
  with assms show ?thesis by (simp add: tryButton_def sameObjects_refl)
next
  case (Some a)
  show ?thesis
  proof (cases "overrideText rs wbn toolbar a h")
    case (Inl e)
    with Some assms show ?thesis by (simp add: tryButton_def sameObjects_refl)
  next
    case (Inr h1)
    note s1 = overrideText_same[OF Inr]
    show ?thesis
    proof (cases "defaultIcon rs wbn toolbar a h1")
      case (Inl e)
      with Some Inr assms s1 show ?thesis by (simp add: tryButton_def)
    next
      case h2: (Inr h2)
      note s2 = sameObjects_trans[OF s1 defaultIcon_same[OF h2]]
      show ?thesis
      proof (cases "overrideIcon rs wbn toolbar a h2")
        case (Inl e)
        with Some Inr h2 assms s2 show ?thesis by (simp add: tryButton_def)
      next
        case h3: (Inr h3)
        note s3 = sameObjects_trans[OF s2 overrideIcon_same[OF h3]]
        from Some Inr h2 h3 assms have "h' = h3" by (simp add: tryButton_def)
        with s3 show ?thesis by simp
      qed
    qed
  qed
qed

lemma addSizedButton_ok:
  "addSizedButton P sz act a button = Inr rb \<Longrightarrow>
     rb_action rb = a \<and> rb_menu rb = b_menu button \<and> rb_text rb = a_text act \<and> rb_icon rb = a_icon act"
  by (auto simp: addSizedButton_def Let_def split: if_splits)

lemma tryButton_ok:
  assumes "tryButton rs P wbn toolbar button h = (h', Inr rb)"
  shows "b_action (buttons h button) = Some (rb_action rb) \<and> rb_menu rb = b_menu (buttons h button)"
proof -
  from tryButton_same[OF assms] have m: "b_menu (buttons h' button) = b_menu (buttons h button)"
    by (simp add: sameObjects_def)
  from assms obtain a sz where a: "b_action (buttons h button) = Some a"
    and r: "addSizedButton P sz (actions h' a) a (buttons h' button) = Inr rb"
    by (auto simp: tryButton_def bnd_def split: option.splits sum.splits)
  from addSizedButton_ok[OF r] a m show ?thesis by simp
qed

text \<open>The loop over the buttons: what it leaves of the host, and what each
  position adds to the panel and to \<open>shadowList\<close>.\<close>

lemma addButtons_same:
  "addButtons rs P wbn toolbar bs (btns0, sh0, h0) = (btns, sh, h') \<Longrightarrow> sameObjects h0 h'"
proof (induction bs arbitrary: btns0 sh0 h0)
  case Nil
  then show ?case by (simp add: sameObjects_refl)
next
  case (Cons button bs)
  obtain h1 r where t: "tryButton rs P wbn toolbar button h0 = (h1, r)"
    by (cases "tryButton rs P wbn toolbar button h0")
  note s1 = tryButton_same[OF t]
  show ?case
  proof (cases "b_text (buttons h0 button) = [] \<or> b_text (buttons h0 button) \<in> set sh0")
    case True
    with Cons.prems have "addButtons rs P wbn toolbar bs (btns0, sh0, h0) = (btns, sh, h')"
      by (auto split: if_splits)
    from Cons.IH[OF this] show ?thesis .
  next
    case False
    show ?thesis
    proof (cases r)
      case (Inl e)
      with False t Cons.prems have "addButtons rs P wbn toolbar bs (btns0, sh0, h1) = (btns, sh, h')"
        by simp
      from sameObjects_trans[OF s1 Cons.IH[OF this]] show ?thesis .
    next
      case (Inr rb)
      with False t Cons.prems have
        "addButtons rs P wbn toolbar bs (btns0 @ [rb], sh0 @ [b_text (buttons h1 button)], h1)
           = (btns, sh, h')"
        by simp
      from sameObjects_trans[OF s1 Cons.IH[OF this]] show ?thesis .
    qed
  qed
qed

lemma addButtons_append:
  "addButtons rs P wbn toolbar (xs @ ys) st
     = addButtons rs P wbn toolbar ys (addButtons rs P wbn toolbar xs st)"
proof (induction xs arbitrary: st)
  case Nil
  then show ?case by simp
next
  case (Cons x xs)
  obtain btns sh h where st: "st = (btns, sh, h)" by (cases st) auto
  show ?case unfolding st by (simp add: Cons.IH split: prod.splits sum.splits)
qed

lemma reached_0: "reached rs P wbn toolbar bs h 0 = ([], [], h)"
  by (simp add: reached_def)

lemma reached_Suc:
  "i < length bs \<Longrightarrow>
     reached rs P wbn toolbar bs h (Suc i)
       = addButtons rs P wbn toolbar [bs ! i] (reached rs P wbn toolbar bs h i)"
  by (simp add: reached_def take_Suc_conv_app_nth addButtons_append)

lemma reached_length:
  "reached rs P wbn toolbar bs h (length bs) = addButtons rs P wbn toolbar bs ([], [], h)"
  by (simp add: reached_def)

lemma reached_same: "sameObjects h (snd (snd (reached rs P wbn toolbar bs h i)))"
proof -
  obtain btns sh hi where r: "reached rs P wbn toolbar bs h i = (btns, sh, hi)"
    by (cases "reached rs P wbn toolbar bs h i") auto
  then have "addButtons rs P wbn toolbar (take i bs) ([], [], h) = (btns, sh, hi)"
    by (simp add: reached_def)
  from addButtons_same[OF this] r show ?thesis by simp
qed

lemma reached_step:
  assumes "i < length bs"
  shows "fst (reached rs P wbn toolbar bs h (Suc i))
           = fst (reached rs P wbn toolbar bs h i) @ map fst (recordedAt rs P wbn toolbar bs h i)"
    and "fst (snd (reached rs P wbn toolbar bs h (Suc i)))
           = fst (snd (reached rs P wbn toolbar bs h i))
               @ map snd (recordedAt rs P wbn toolbar bs h i)"
proof -
  obtain btns sh hi where r: "reached rs P wbn toolbar bs h i = (btns, sh, hi)"
    by (cases "reached rs P wbn toolbar bs h i") auto
  obtain h1 res where t: "tryButton rs P wbn toolbar (bs ! i) hi = (h1, res)"
    by (cases "tryButton rs P wbn toolbar (bs ! i) hi")
  have "fst (reached rs P wbn toolbar bs h (Suc i))
           = fst (reached rs P wbn toolbar bs h i) @ map fst (recordedAt rs P wbn toolbar bs h i)
      \<and> fst (snd (reached rs P wbn toolbar bs h (Suc i)))
           = fst (snd (reached rs P wbn toolbar bs h i))
               @ map snd (recordedAt rs P wbn toolbar bs h i)"
    unfolding reached_Suc[OF assms] recordedAt_def offered_def attempt_def r
    using t by (cases res) auto
  then show "fst (reached rs P wbn toolbar bs h (Suc i))
           = fst (reached rs P wbn toolbar bs h i) @ map fst (recordedAt rs P wbn toolbar bs h i)"
    and "fst (snd (reached rs P wbn toolbar bs h (Suc i)))
           = fst (snd (reached rs P wbn toolbar bs h i))
               @ map snd (recordedAt rs P wbn toolbar bs h i)"
    by simp_all
qed

lemma reached_recorded:
  "n \<le> length bs \<Longrightarrow>
     fst (reached rs P wbn toolbar bs h n)
       = map fst (concat (map (recordedAt rs P wbn toolbar bs h) [0..<n])) \<and>
     fst (snd (reached rs P wbn toolbar bs h n))
       = map snd (concat (map (recordedAt rs P wbn toolbar bs h) [0..<n]))"
proof (induction n)
  case 0
  then show ?case by (simp add: reached_0)
next
  case (Suc n)
  then have n: "n < length bs" by simp
  from Suc.IH n reached_step[OF n, of rs P wbn toolbar h] show ?case by simp
qed

lemma recordedAt_cases:
  assumes "x \<in> set (recordedAt rs P wbn toolbar bs h i)"
  shows "offered rs P wbn toolbar bs h i \<and>
         recordedAt rs P wbn toolbar bs h i = [x] \<and>
         attempt rs P wbn toolbar bs h i = (fst (attempt rs P wbn toolbar bs h i), Inr (fst x)) \<and>
         snd x = b_text (buttons (fst (attempt rs P wbn toolbar bs h i)) (bs ! i))"
proof -
  obtain h1 res where a: "attempt rs P wbn toolbar bs h i = (h1, res)"
    by (cases "attempt rs P wbn toolbar bs h i")
  show ?thesis
  proof (cases res)
    case (Inl e)
    have "recordedAt rs P wbn toolbar bs h i = []" by (simp add: recordedAt_def a Inl)
    with assms show ?thesis by simp
  next
    case (Inr btn)
    have r: "recordedAt rs P wbn toolbar bs h i =
            (if offered rs P wbn toolbar bs h i then [(btn, b_text (buttons h1 (bs ! i)))] else [])"
      by (simp add: recordedAt_def a Inr)
    show ?thesis
    proof (cases "offered rs P wbn toolbar bs h i")
      case True
      with r assms have "x = (btn, b_text (buttons h1 (bs ! i)))" by simp
      with True r a Inr show ?thesis by simp
    next
      case False
      with r assms show ?thesis by simp
    qed
  qed
qed

lemma recordedAt_source:
  assumes "x \<in> set (recordedAt rs P wbn toolbar bs h i)"
  shows "b_action (buttons h (bs ! i)) = Some (rb_action (fst x)) \<and>
         b_menu (buttons h (bs ! i)) = rb_menu (fst x)"
proof -
  let ?hi = "snd (snd (reached rs P wbn toolbar bs h i))"
  from recordedAt_cases[OF assms] have
    "tryButton rs P wbn toolbar (bs ! i) ?hi
       = (fst (attempt rs P wbn toolbar bs h i), Inr (fst x))"
    by (simp add: attempt_def)
  from tryButton_ok[OF this] reached_same[of h rs P wbn toolbar bs i]
  show ?thesis by (simp add: sameObjects_def)
qed

lemma shadowList_kept_distinct:
  assumes "n \<le> length bs"
    and "\<forall>i<n. offered rs P wbn toolbar bs h i \<longrightarrow> keepsText rs P wbn toolbar bs h i"
  shows "distinct (fst (snd (reached rs P wbn toolbar bs h n))) \<and>
         [] \<notin> set (fst (snd (reached rs P wbn toolbar bs h n)))"
  using assms
proof (induction n)
  case 0
  then show ?case by (simp add: reached_0)
next
  case (Suc n)
  then have n: "n < length bs" by simp
  from Suc have IH: "distinct (fst (snd (reached rs P wbn toolbar bs h n)))"
    "[] \<notin> set (fst (snd (reached rs P wbn toolbar bs h n)))" by simp_all
  show ?case
  proof (cases "recordedAt rs P wbn toolbar bs h n")
    case Nil
    with IH reached_step(2)[OF n, of rs P wbn toolbar h] show ?thesis by simp
  next
    case (Cons x xs)
    then have "x \<in> set (recordedAt rs P wbn toolbar bs h n)" by simp
    from recordedAt_cases[OF this] have o: "offered rs P wbn toolbar bs h n"
      and e: "recordedAt rs P wbn toolbar bs h n = [x]"
      and t: "snd x = b_text (buttons (fst (attempt rs P wbn toolbar bs h n)) (bs ! n))"
      by simp_all
    from o Suc.prems(2) have "keepsText rs P wbn toolbar bs h n" by simp
    with t have t': "snd x = b_text (buttons (snd (snd (reached rs P wbn toolbar bs h n))) (bs ! n))"
      by (simp add: keepsText_def)
    from o t' have "snd x \<noteq> []" "snd x \<notin> set (fst (snd (reached rs P wbn toolbar bs h n)))"
      by (auto simp: offered_def split: prod.splits)
    with IH e reached_step(2)[OF n, of rs P wbn toolbar h] show ?thesis by auto
  qed
qed

text \<open>The sorts keep the elements.\<close>

lemma all_keys_length: "all_keys f xs = Inr ks \<Longrightarrow> length ks = length xs"
  by (induction xs arbitrary: ks) (auto simp: bnd_def split: sum.splits)

lemma py_sort_mset: "py_sort f xs = Inr ys \<Longrightarrow> mset ys = mset xs"
proof -
  assume a: "py_sort f xs = Inr ys"
  then obtain ks where k: "all_keys f xs = Inr ks" and y: "ys = map snd (sort_key fst (zip ks xs))"
    by (auto simp: py_sort_def bnd_def split: sum.splits)
  have "mset ys = image_mset snd (mset (sort_key fst (zip ks xs)))" using y by simp
  also have "\<dots> = image_mset snd (mset (zip ks xs))" by simp
  also have "\<dots> = mset (map snd (zip ks xs))" by simp
  also have "\<dots> = mset xs" using all_keys_length[OF k] by (simp only: map_snd_zip)
  finally show ?thesis .
qed

lemma orderButtons_mset: "orderButtons rs h wbn toolbar xs = Inr ys \<Longrightarrow> mset ys = mset xs"
  by (auto simp: orderButtons_def bnd_def split: sum.splits if_splits dest: py_sort_mset)

text \<open>One pass and the main loop of \<open>buildPanels\<close>.\<close>

lemma buildPanel_same: "buildPanel rs P wbn toolbar h = ((p, h'), r) \<Longrightarrow> sameObjects h h'"
  by (auto simp: buildPanel_def sameObjects_refl split: sum.splits prod.splits
      dest: addButtons_same)

lemma buildPanel_ok:
  assumes "buildPanel rs P wbn toolbar h = ((p, h'), None)"
  shows "panelOf rs P wbn toolbar h p"
proof -
  from assms obtain bs btns sh where
    o: "orderButtons rs h wbn toolbar (collectButtons rs h wbn toolbar) = Inr bs" and
    a: "addButtons rs P wbn toolbar bs ([], [], h) = (btns, sh, h')" and
    p: "p = \<lparr>p_title = panelTitle toolbar, p_buttons = btns\<rparr>"
    by (auto simp: buildPanel_def split: sum.splits prod.splits)
  from a have "fst (reached rs P wbn toolbar bs h (length bs)) = btns"
    by (simp add: reached_length)
  with reached_recorded[of "length bs" bs rs P wbn toolbar h]
  have b: "btns = map fst (concat (map (recordedAt rs P wbn toolbar bs h) [0..<length bs]))"
    by simp
  show ?thesis
    unfolding panelOf_def o using p b orderButtons_mset[OF o] recordedAt_source
    by simp
qed

lemma panelsLoop_same:
  "panelsLoop rs P wbn ok ts (ps0, h0) = ((ps, h), r) \<Longrightarrow> sameObjects h0 h"
proof (induction ts arbitrary: ps0 h0)
  case Nil
  then show ?case by (simp add: sameObjects_refl)
next
  case (Cons t ts)
  show ?case
  proof (cases "bnd (getitem rs ''ignoredToolbars'') (contains t)")
    case (Inl e)
    with Cons.prems show ?thesis by (simp add: sameObjects_refl)
  next
    case (Inr ignored)
    show ?thesis
    proof (cases "ignored \<or> t = []")
      case True
      with Inr Cons.prems have "panelsLoop rs P wbn ok ts (ps0, h0) = ((ps, h), r)"
        by (auto split: if_splits)
      from Cons.IH[OF this] show ?thesis .
    next
      case False
      show ?thesis
      proof (cases ok)
        case False
        with \<open>\<not> (ignored \<or> t = [])\<close> Inr Cons.prems show ?thesis by (simp add: sameObjects_refl)
      next
        case True
        obtain p h1 r1 where b: "buildPanel rs P wbn t h0 = ((p, h1), r1)"
          by (cases "buildPanel rs P wbn t h0") auto
        note s1 = buildPanel_same[OF b]
        show ?thesis
        proof (cases r1)
          case None
          with True False Inr b Cons.prems have
            "panelsLoop rs P wbn ok ts (ps0 @ [p], h1) = ((ps, h), r)" by simp
          from sameObjects_trans[OF s1 Cons.IH[OF this]] show ?thesis .
        next
          case (Some e)
          with True False Inr b Cons.prems have "h = h1" by simp
          with s1 show ?thesis by simp
        qed
      qed
    qed
  qed
qed

lemma panelsLoop_passes:
  assumes "panelsLoop rs P wbn ok ts (ps0, h0) = ((ps, h), None)"
  shows "\<exists>new hs. ps = ps0 @ new \<and>
           length new = length (filter (shownToolbar rs) ts) \<and>
           length hs = Suc (length (filter (shownToolbar rs) ts)) \<and>
           hs ! 0 = h0 \<and> hs ! length (filter (shownToolbar rs) ts) = h \<and>
           (\<forall>k<length (filter (shownToolbar rs) ts).
              buildPanel rs P wbn (filter (shownToolbar rs) ts ! k) (hs ! k)
                = ((new ! k, hs ! Suc k), None)) \<and>
           (new \<noteq> [] \<longrightarrow> ok)"
  using assms
proof (induction ts arbitrary: ps0 h0)
  case Nil
  then show ?case by (intro exI[of _ "[]"] exI[of _ "[h0]"]) simp
next
  case (Cons t ts)
  from Cons.prems obtain ignored where
    i: "bnd (getitem rs ''ignoredToolbars'') (contains t) = Inr ignored"
    by (cases "bnd (getitem rs ''ignoredToolbars'') (contains t)") auto
  show ?case
  proof (cases "ignored \<or> t = []")
    case True
    with i have ns: "\<not> shownToolbar rs t" by (auto simp: shownToolbar_def)
    from True i Cons.prems have "panelsLoop rs P wbn ok ts (ps0, h0) = ((ps, h), None)"
      by (auto split: if_splits)
    from Cons.IH[OF this] ns show ?thesis by simp
  next
    case False
    with i have sh: "shownToolbar rs t" by (auto simp: shownToolbar_def)
    let ?shown = "filter (shownToolbar rs) ts"
    from False i Cons.prems have ok: ok by (auto split: if_splits)
    obtain p h1 r1 where b0: "buildPanel rs P wbn t h0 = ((p, h1), r1)"
      by (cases "buildPanel rs P wbn t h0") auto
    with False i ok Cons.prems have r1: "r1 = None" by (cases r1) auto
    with b0 have b: "buildPanel rs P wbn t h0 = ((p, h1), None)" by simp
    with False i ok Cons.prems have r: "panelsLoop rs P wbn ok ts (ps0 @ [p], h1) = ((ps, h), None)"
      by simp
    from Cons.IH[OF r] obtain new hs where
      n: "ps = (ps0 @ [p]) @ new" "length new = length ?shown" "length hs = Suc (length ?shown)"
         "hs ! 0 = h1" "hs ! length ?shown = h"
         "\<forall>k<length ?shown. buildPanel rs P wbn (?shown ! k) (hs ! k) = ((new ! k, hs ! Suc k), None)"
      by blast
    have all: "\<forall>k<length (filter (shownToolbar rs) (t # ts)).
              buildPanel rs P wbn (filter (shownToolbar rs) (t # ts) ! k) ((h0 # hs) ! k)
                = (((p # new) ! k, (h0 # hs) ! Suc k), None)"
    proof (intro allI impI)
      fix k assume k: "k < length (filter (shownToolbar rs) (t # ts))"
      show "buildPanel rs P wbn (filter (shownToolbar rs) (t # ts) ! k) ((h0 # hs) ! k)
                = (((p # new) ! k, (h0 # hs) ! Suc k), None)"
      proof (cases k)
        case 0
        with sh b n(4) show ?thesis by simp
      next
        case (Suc k')
        with k sh have "k' < length ?shown" by simp
        with n(6) Suc sh show ?thesis by simp
      qed
    qed
    have "ps = ps0 @ (p # new)" using n(1) by simp
    moreover have "length (p # new) = length (filter (shownToolbar rs) (t # ts))"
      using sh n(2) by simp
    moreover have "length (h0 # hs) = Suc (length (filter (shownToolbar rs) (t # ts)))"
      using sh n(3) by simp
    moreover have "(h0 # hs) ! 0 = h0" by simp
    moreover have "(h0 # hs) ! length (filter (shownToolbar rs) (t # ts)) = h"
      using sh n(5) by simp
    ultimately show ?thesis using all ok by blast
  qed
qed

text \<open>What \<open>buildPanels\<close>, \<open>updateCurrentTab\<close>, \<open>hideClassicToolbars\<close> and the
  slots leave as it was, whether they return or raise.\<close>

lemma buildPanels_cases:
  assumes "buildPanels s = (s', r)"
  shows "(isWbLoaded s (currentTabName s) = None \<and> s' = s \<and> r = Some KeyError) \<or>
         (isWbLoaded s (currentTabName s) = Some True \<and> s' = s \<and> r = None) \<or>
         (isWbLoaded s (currentTabName s) = Some False \<and>
          (\<exists>panels h.
             panelsLoop (ribbonStructure s) (parameters s) (wb_name (activeWorkbench (gui s)))
               (hasCurrentCategory s) (ListToolbars (ribbonStructure s) (gui s)) ([], gui s)
               = ((panels, h), r) \<and>
             categories s' = addPanels s panels \<and> gui s' = h \<and>
             isWbLoaded s' = (if r = None then (isWbLoaded s)(currentTabName s \<mapsto> True)
                              else isWbLoaded s) \<and>
             s' = (if r = None
                   then s\<lparr>categories := addPanels s panels, gui := h,
                          isWbLoaded := (isWbLoaded s)(currentTabName s \<mapsto> True)\<rparr>
                   else s\<lparr>categories := addPanels s panels, gui := h\<rparr>)))"
proof (cases "isWbLoaded s (currentTabName s)")
  case None
  with assms show ?thesis by (simp add: buildPanels_def Let_def)
next
  case (Some loaded)
  show ?thesis
  proof (cases loaded)
    case True
    with Some assms show ?thesis by (simp add: buildPanels_def Let_def)
  next
    case False
    obtain panels h r1 where
      l: "panelsLoop (ribbonStructure s) (parameters s) (wb_name (activeWorkbench (gui s)))
            (hasCurrentCategory s) (ListToolbars (ribbonStructure s) (gui s)) ([], gui s)
            = ((panels, h), r1)"
      by (cases "panelsLoop (ribbonStructure s) (parameters s) (wb_name (activeWorkbench (gui s)))
            (hasCurrentCategory s) (ListToolbars (ribbonStructure s) (gui s)) ([], gui s)") auto
    show ?thesis
    proof (cases r1)
      case None
      with False Some l assms show ?thesis by (auto simp: buildPanels_def Let_def)
    next
      case (Some e)
      with False \<open>isWbLoaded s (currentTabName s) = Some loaded\<close> l assms show ?thesis
        by (auto simp: buildPanels_def Let_def)
    qed
  qed
qed

lemma buildPanels_build:
  assumes "isWbLoaded s (currentTabName s) = Some False"
    and "panelsLoop (ribbonStructure s) (parameters s) (wb_name (activeWorkbench (gui s)))
           (hasCurrentCategory s) (ListToolbars (ribbonStructure s) (gui s)) ([], gui s)
           = ((panels, h), r)"
  shows "buildPanels s =
           (if r = None
            then s\<lparr>categories := addPanels s panels, gui := h,
                   isWbLoaded := (isWbLoaded s)(currentTabName s \<mapsto> True)\<rparr>
            else s\<lparr>categories := addPanels s panels, gui := h\<rparr>, r)"
  using assms by (cases r) (simp_all add: buildPanels_def Let_def)

lemma buildPanels_frame:
  assumes "buildPanels s = (s', r)"
  shows "tabs s' = tabs s"
    and "map cat_title (categories s') = map cat_title (categories s)"
    and "currentIndex s' = currentIndex s"
    and "ribbonStructure s' = ribbonStructure s"
    and "wbNameMapping s' = wbNameMapping s"
    and "timer s' = timer s"
    and "MainWindowLoaded s' = MainWindowLoaded s"
    and "quickAccess s' = quickAccess s"
    and "pathScripts s' = pathScripts s"
    and "parameters s' = parameters s"
    and "sameObjects (gui s) (gui s')"
proof -
  have "tabs s' = tabs s \<and> map cat_title (categories s') = map cat_title (categories s)
      \<and> currentIndex s' = currentIndex s \<and> ribbonStructure s' = ribbonStructure s
      \<and> wbNameMapping s' = wbNameMapping s \<and> timer s' = timer s
      \<and> MainWindowLoaded s' = MainWindowLoaded s \<and> quickAccess s' = quickAccess s
      \<and> pathScripts s' = pathScripts s \<and> parameters s' = parameters s
      \<and> sameObjects (gui s) (gui s')"
  proof (cases "isWbLoaded s (currentTabName s) = Some False")
    case False
    with buildPanels_cases[OF assms] have "s' = s" by auto
    then show ?thesis by (simp add: sameObjects_refl)
  next
    case True
    with buildPanels_cases[OF assms] obtain panels h where
      l: "panelsLoop (ribbonStructure s) (parameters s) (wb_name (activeWorkbench (gui s)))
            (hasCurrentCategory s) (ListToolbars (ribbonStructure s) (gui s)) ([], gui s)
            = ((panels, h), r)" and
      e: "s' = (if r = None
                   then s\<lparr>categories := addPanels s panels, gui := h,
                          isWbLoaded := (isWbLoaded s)(currentTabName s \<mapsto> True)\<rparr>
                   else s\<lparr>categories := addPanels s panels, gui := h\<rparr>)"
      by auto
    from panelsLoop_same[OF l] e show ?thesis by (simp add: titles_addPanels)
  qed
  then show "tabs s' = tabs s"
    and "map cat_title (categories s') = map cat_title (categories s)"
    and "currentIndex s' = currentIndex s"
    and "ribbonStructure s' = ribbonStructure s"
    and "wbNameMapping s' = wbNameMapping s"
    and "timer s' = timer s"
    and "MainWindowLoaded s' = MainWindowLoaded s"
    and "quickAccess s' = quickAccess s"
    and "pathScripts s' = pathScripts s"
    and "parameters s' = parameters s"
    and "sameObjects (gui s) (gui s')"
    by simp_all
qed

lemma currentTabName_buildPanels:
  assumes "buildPanels s = (s', r)"
  shows "currentTabName s' = currentTabName s"
  using buildPanels_frame(1,3)[OF assms] tabText_cong[of s' s "currentIndex s"]
  by (simp add: currentTabName_def)

lemma updateCurrentTab_found:
  assumes "l = wb_MenuText (activeWorkbench (gui s))" "l \<in> set (map tab_text (tabs s))"
  shows "currentIndex (updateCurrentTab s) = indexOf s l"
    and "validIndex s (indexOf s l)"
    and "tabText s (indexOf s l) = l"
proof -
  from assms(2) obtain i where i: "list_find l (map tab_text (tabs s)) = Some i"
    using list_find_None by (cases "list_find l (map tab_text (tabs s))") auto
  from list_find_Some[OF i] have b: "i < length (tabs s)" and n: "tab_text (tabs s ! i) = l"
    by auto
  from i have io: "indexOf s l = int i" by (simp add: indexOf_def)
  show v: "validIndex s (indexOf s l)" using b io by (simp add: validIndex_def)
  show "tabText s (indexOf s l) = l" using v n io by (simp add: tabText_def)
  show "currentIndex (updateCurrentTab s) = indexOf s l"
    using v assms(1) by (auto simp: updateCurrentTab_def Let_def setCurrentIndex_def)
qed

lemma updateCurrentTab_frame:
  "tabs (updateCurrentTab s) = tabs s"
  "categories (updateCurrentTab s) = categories s"
  "gui (updateCurrentTab s) = gui s"
  "isWbLoaded (updateCurrentTab s) = isWbLoaded s"
  "ribbonStructure (updateCurrentTab s) = ribbonStructure s"
  "timer (updateCurrentTab s) = timer s"
  "wbNameMapping (updateCurrentTab s) = wbNameMapping s"
  "quickAccess (updateCurrentTab s) = quickAccess s"
  "parameters (updateCurrentTab s) = parameters s"
  "MainWindowLoaded (updateCurrentTab s) = MainWindowLoaded s"
  by (auto simp: updateCurrentTab_def Let_def setCurrentIndex_def)

lemma hideClassicToolbars_frame:
  "tabs (hideClassicToolbars s) = tabs s"
  "categories (hideClassicToolbars s) = categories s"
  "currentIndex (hideClassicToolbars s) = currentIndex s"
  "isWbLoaded (hideClassicToolbars s) = isWbLoaded s"
  "ribbonStructure (hideClassicToolbars s) = ribbonStructure s"
  "timer (hideClassicToolbars s) = timer s"
  "wbNameMapping (hideClassicToolbars s) = wbNameMapping s"
  "quickAccess (hideClassicToolbars s) = quickAccess s"
  "parameters (hideClassicToolbars s) = parameters s"
  "MainWindowLoaded (hideClassicToolbars s) = MainWindowLoaded s"
  "activeWorkbench (gui (hideClassicToolbars s)) = activeWorkbench (gui s)"
  "workbenches (gui (hideClassicToolbars s)) = workbenches (gui s)"
  "actions (gui (hideClassicToolbars s)) = actions (gui s)"
  "buttons (gui (hideClassicToolbars s)) = buttons (gui s)"
  "commands (gui (hideClassicToolbars s)) = commands (gui s)"
  "GetString (gui (hideClassicToolbars s)) = GetString (gui s)"
  "calls (gui (hideClassicToolbars s)) = calls (gui s)"
  by (simp_all add: hideClassicToolbars_def)

lemma onWbActivated_cases:
  assumes "onWbActivated s = (s', r)"
  shows "(\<not> wb_loaded (activeWorkbench (gui s)) \<and> r = None \<and>
            s' = (hideClassicToolbars (updateCurrentTab s))
                   \<lparr>timer := startRetryTimer (timer s)\<rparr>) \<or>
         (wb_loaded (activeWorkbench (gui s)) \<and>
            buildPanels (hideClassicToolbars (updateCurrentTab s)) = (s', r))"
  using assms
  by (auto simp: onWbActivated_def Let_def hideClassicToolbars_frame updateCurrentTab_frame
      split: if_splits)

lemma onWbActivated_frame:
  assumes "onWbActivated s = (s', r)"
  shows "tabs s' = tabs s"
    and "map cat_title (categories s') = map cat_title (categories s)"
    and "currentIndex s' = currentIndex (updateCurrentTab s)"
    and "ribbonStructure s' = ribbonStructure s"
    and "wbNameMapping s' = wbNameMapping s"
    and "quickAccess s' = quickAccess s"
    and "activeWorkbench (gui s') = activeWorkbench (gui s)"
    and "workbenches (gui s') = workbenches (gui s)"
    and "GetString (gui s') = GetString (gui s)"
proof -
  let ?s1 = "hideClassicToolbars (updateCurrentTab s)"
  have "tabs s' = tabs s
      \<and> map cat_title (categories s') = map cat_title (categories s)
      \<and> currentIndex s' = currentIndex (updateCurrentTab s)
      \<and> ribbonStructure s' = ribbonStructure s
      \<and> wbNameMapping s' = wbNameMapping s
      \<and> quickAccess s' = quickAccess s
      \<and> activeWorkbench (gui s') = activeWorkbench (gui s)
      \<and> workbenches (gui s') = workbenches (gui s)
      \<and> GetString (gui s') = GetString (gui s)"
  proof (cases "wb_loaded (activeWorkbench (gui s))")
    case False
    with onWbActivated_cases[OF assms]
    have "s' = ?s1\<lparr>timer := startRetryTimer (timer s)\<rparr>" by simp
    then show ?thesis by (simp add: hideClassicToolbars_frame updateCurrentTab_frame)
  next
    case True
    with onWbActivated_cases[OF assms] have b: "buildPanels ?s1 = (s', r)" by simp
    show ?thesis
      using buildPanels_frame(1,2,3,4,5,8,11)[OF b]
      by (simp add: hideClassicToolbars_frame updateCurrentTab_frame sameObjects_def)
  qed
  then show "tabs s' = tabs s"
    and "map cat_title (categories s') = map cat_title (categories s)"
    and "currentIndex s' = currentIndex (updateCurrentTab s)"
    and "ribbonStructure s' = ribbonStructure s"
    and "wbNameMapping s' = wbNameMapping s"
    and "quickAccess s' = quickAccess s"
    and "activeWorkbench (gui s') = activeWorkbench (gui s)"
    and "workbenches (gui s') = workbenches (gui s)"
    and "GetString (gui s') = GetString (gui s)"
    by simp_all
qed

lemma onUserChangedWorkbench_cases:
  assumes "onUserChangedWorkbench s = (s', r)"
  shows "(s' = s \<and> r = Some KeyError \<and>
           (wbNameMapping s (strip_amp (tabText s (currentIndex s))) = None \<or>
            (\<exists>n. wbNameMapping s (strip_amp (tabText s (currentIndex s))) = Some n \<and>
                  map_of (workbenches (gui s)) n = None))) \<or>
         (\<exists>n wb. wbNameMapping s (strip_amp (tabText s (currentIndex s))) = Some n \<and>
                  map_of (workbenches (gui s)) n = Some wb \<and>
                  onWbActivated (s\<lparr>gui := (gui s)\<lparr>activeWorkbench := wb\<rparr>\<rparr>) = (s', r))"
  using assms
  by (auto simp: onUserChangedWorkbench_def Let_def activateWorkbench_def
      split: option.splits sum.splits)

lemma onUserChangedWorkbench_frame:
  assumes "onUserChangedWorkbench s = (s', r)"
  shows "tabs s' = tabs s"
    and "map cat_title (categories s') = map cat_title (categories s)"
    and "ribbonStructure s' = ribbonStructure s"
    and "wbNameMapping s' = wbNameMapping s"
    and "quickAccess s' = quickAccess s"
    and "workbenches (gui s') = workbenches (gui s)"
    and "GetString (gui s') = GetString (gui s)"
proof -
  have "tabs s' = tabs s
      \<and> map cat_title (categories s') = map cat_title (categories s)
      \<and> ribbonStructure s' = ribbonStructure s
      \<and> wbNameMapping s' = wbNameMapping s
      \<and> quickAccess s' = quickAccess s
      \<and> workbenches (gui s') = workbenches (gui s)
      \<and> GetString (gui s') = GetString (gui s)"
  proof (cases "s' = s")
    case True
    then show ?thesis by simp
  next
    case False
    with onUserChangedWorkbench_cases[OF assms] obtain wb where
      o: "onWbActivated (s\<lparr>gui := (gui s)\<lparr>activeWorkbench := wb\<rparr>\<rparr>) = (s', r)"
      by auto
    from onWbActivated_frame(1,2,4,5,6,8,9)[OF o] show ?thesis by simp
  qed
  then show "tabs s' = tabs s"
    and "map cat_title (categories s') = map cat_title (categories s)"
    and "ribbonStructure s' = ribbonStructure s"
    and "wbNameMapping s' = wbNameMapping s"
    and "quickAccess s' = quickAccess s"
    and "workbenches (gui s') = workbenches (gui s)"
    and "GetString (gui s') = GetString (gui s)"
    by simp_all
qed

text \<open>The tabs and the quick access buttons that \<open>createModernMenu\<close> adds.\<close>

lemma addCategory_frame:
  assumes "addCategory s name = (s1, r)"
  shows "ribbonStructure s1 = ribbonStructure s"
    and "workbenches (gui s1) = workbenches (gui s)"
    and "GetString (gui s1) = GetString (gui s)"
    and "quickAccess s1 = quickAccess s"
proof -
  let ?s1 = "s\<lparr>tabs := tabs s @ [\<lparr>tab_text = name, tab_icon = []\<rparr>],
               categories := categories s @ [\<lparr>cat_title = name, cat_panels = []\<rparr>],
               currentIndex := 0\<rparr>"
  obtain s2 r2 where u: "onUserChangedWorkbench ?s1 = (s2, r2)"
    by (cases "onUserChangedWorkbench ?s1")
  from assms u have "s1 = s \<or> s1 = s2
     \<or> s1 = s\<lparr>tabs := tabs s @ [\<lparr>tab_text = name, tab_icon = []\<rparr>],
              categories := categories s @ [\<lparr>cat_title = name, cat_panels = []\<rparr>]\<rparr>"
    by (auto simp: addCategory_def Let_def split: if_splits)
  with onUserChangedWorkbench_frame(3,5,6,7)[OF u]
  have "ribbonStructure s1 = ribbonStructure s \<and> workbenches (gui s1) = workbenches (gui s)
      \<and> GetString (gui s1) = GetString (gui s) \<and> quickAccess s1 = quickAccess s"
    by auto
  then show "ribbonStructure s1 = ribbonStructure s"
    and "workbenches (gui s1) = workbenches (gui s)"
    and "GetString (gui s1) = GetString (gui s)"
    and "quickAccess s1 = quickAccess s"
    by simp_all
qed

lemma addCategory_shape:
  assumes "addCategory s name = (s1, None)"
  shows "map tab_text (tabs s1) = map tab_text (tabs s) @ [name]"
    and "map cat_title (categories s1) = map cat_title (categories s) @ [name]"
proof -
  let ?s1 = "s\<lparr>tabs := tabs s @ [\<lparr>tab_text = name, tab_icon = []\<rparr>],
               categories := categories s @ [\<lparr>cat_title = name, cat_panels = []\<rparr>],
               currentIndex := 0\<rparr>"
  obtain s2 r2 where u: "onUserChangedWorkbench ?s1 = (s2, r2)"
    by (cases "onUserChangedWorkbench ?s1")
  from assms u have "s1 = s2
     \<or> s1 = s\<lparr>tabs := tabs s @ [\<lparr>tab_text = name, tab_icon = []\<rparr>],
              categories := categories s @ [\<lparr>cat_title = name, cat_panels = []\<rparr>]\<rparr>"
    by (auto simp: addCategory_def Let_def split: if_splits)
  with onUserChangedWorkbench_frame(1,2)[OF u]
  have "map tab_text (tabs s1) = map tab_text (tabs s) @ [name]
      \<and> map cat_title (categories s1) = map cat_title (categories s) @ [name]"
    by auto
  then show "map tab_text (tabs s1) = map tab_text (tabs s) @ [name]"
    and "map cat_title (categories s1) = map cat_title (categories s) @ [name]"
    by simp_all
qed

lemma setTabIcon_texts: "map tab_text (tabs (setTabIcon s i icon)) = map tab_text (tabs s)"
proof (cases "validIndex s i")
  case True
  then have "nat i < length (tabs s)" by (simp add: validIndex_def nat_less_iff)
  then have "(map tab_text (tabs s))[nat i := tab_text (tabs s ! nat i)] = map tab_text (tabs s)"
    by (metis list_update_id nth_map)
  with True show ?thesis by (simp add: setTabIcon_def map_update)
next
  case False
  then show ?thesis by (simp add: setTabIcon_def)
qed

lemma setTabIcon_frame:
  "categories (setTabIcon s i icon) = categories s"
  "ribbonStructure (setTabIcon s i icon) = ribbonStructure s"
  "gui (setTabIcon s i icon) = gui s"
  "quickAccess (setTabIcon s i icon) = quickAccess s"
  by (simp_all add: setTabIcon_def)

lemma addWorkbenchTabs_frame:
  assumes "addWorkbenchTabs ordered ws s = (s', r)"
  shows "ribbonStructure s' = ribbonStructure s \<and> workbenches (gui s') = workbenches (gui s) \<and>
         GetString (gui s') = GetString (gui s) \<and> quickAccess s' = quickAccess s"
  using assms
proof (induction ws arbitrary: s)
  case Nil
  then show ?case by simp
next
  case (Cons w ws)
  obtain workbenchName workbench where w: "w = (workbenchName, workbench)" by (cases w)
  let ?test = "if workbenchName = [] then Inr True
               else bnd (getitem (ribbonStructure s) ''ignoredWorkbenches'')
                      (contains (wb_MenuText workbench))"
  let ?s0 = "s\<lparr>wbNameMapping := (wbNameMapping s)(wb_MenuText workbench \<mapsto> workbenchName),
               isWbLoaded := (isWbLoaded s)(wb_MenuText workbench \<mapsto> False)\<rparr>"
  show ?case
  proof (cases "workbenchName = ordered")
    case False
    with Cons.prems w have "addWorkbenchTabs ordered ws s = (s', r)" by simp
    from Cons.IH[OF this] show ?thesis .
  next
    case True
    show ?thesis
    proof (cases ?test)
      case (Inl e)
      with True Cons.prems w show ?thesis by simp
    next
      case (Inr skip)
      show ?thesis
      proof (cases skip)
        case True
        with Inr \<open>workbenchName = ordered\<close> Cons.prems w
        have "addWorkbenchTabs ordered ws s = (s', r)" by simp
        from Cons.IH[OF this] show ?thesis .
      next
        case False
        obtain s1 r1 where a: "addCategory ?s0 (wb_MenuText workbench) = (s1, r1)"
          by (cases "addCategory ?s0 (wb_MenuText workbench)")
        note f = addCategory_frame[OF a]
        show ?thesis
        proof (cases r1)
          case (Some e)
          with False Inr \<open>workbenchName = ordered\<close> Cons.prems w a have "s' = s1"
            by (simp add: Let_def)
          with f show ?thesis by simp
        next
          case None
          with False Inr \<open>workbenchName = ordered\<close> Cons.prems w a have
            "addWorkbenchTabs ordered ws
               (setTabIcon s1 (int (length (categories s1)) - 1) (wb_Icon workbench)) = (s', r)"
            by (simp add: Let_def)
          from Cons.IH[OF this] f show ?thesis by (simp add: setTabIcon_frame)
        qed
      qed
    qed
  qed
qed

lemma addWorkbenchTabs_shape:
  assumes "addWorkbenchTabs ordered ws s = (s', None)"
  shows "map tab_text (tabs s') =
           map tab_text (tabs s)
             @ map (wb_MenuText \<circ> snd) (filter (tabbedWorkbench (ribbonStructure s) ordered) ws)
         \<and> map cat_title (categories s') =
           map cat_title (categories s)
             @ map (wb_MenuText \<circ> snd) (filter (tabbedWorkbench (ribbonStructure s) ordered) ws)"
  using assms
proof (induction ws arbitrary: s)
  case Nil
  then show ?case by simp
next
  case (Cons w ws)
  obtain workbenchName workbench where w: "w = (workbenchName, workbench)" by (cases w)
  let ?test = "if workbenchName = [] then Inr True
               else bnd (getitem (ribbonStructure s) ''ignoredWorkbenches'')
                      (contains (wb_MenuText workbench))"
  let ?s0 = "s\<lparr>wbNameMapping := (wbNameMapping s)(wb_MenuText workbench \<mapsto> workbenchName),
               isWbLoaded := (isWbLoaded s)(wb_MenuText workbench \<mapsto> False)\<rparr>"
  show ?case
  proof (cases "workbenchName = ordered")
    case False
    with Cons.prems w have "addWorkbenchTabs ordered ws s = (s', None)" by simp
    from Cons.IH[OF this] False w show ?thesis by (simp add: tabbedWorkbench_def)
  next
    case True
    with Cons.prems w obtain skip where k: "?test = Inr skip"
      by (cases ?test) auto
    show ?thesis
    proof (cases skip)
      case True
      with k have nt: "\<not> tabbedWorkbench (ribbonStructure s) ordered w"
        using w by (auto simp: tabbedWorkbench_def ignoredWorkbench_def split: if_splits)
      from True k \<open>workbenchName = ordered\<close> Cons.prems w
      have "addWorkbenchTabs ordered ws s = (s', None)" by simp
      from Cons.IH[OF this] nt show ?thesis by simp
    next
      case False
      with k have t: "tabbedWorkbench (ribbonStructure s) ordered w"
        using w \<open>workbenchName = ordered\<close>
        by (auto simp: tabbedWorkbench_def ignoredWorkbench_def split: if_splits)
      obtain s1 r1 where a0: "addCategory ?s0 (wb_MenuText workbench) = (s1, r1)"
        by (cases "addCategory ?s0 (wb_MenuText workbench)")
      with False k \<open>workbenchName = ordered\<close> Cons.prems w have r1: "r1 = None"
        by (cases r1) (auto simp: Let_def)
      with a0 have a: "addCategory ?s0 (wb_MenuText workbench) = (s1, None)" by simp
      let ?s2 = "setTabIcon s1 (int (length (categories s1)) - 1) (wb_Icon workbench)"
      from False k \<open>workbenchName = ordered\<close> Cons.prems w a
      have "addWorkbenchTabs ordered ws ?s2 = (s', None)" by (simp add: Let_def)
      from Cons.IH[OF this] addCategory_shape[OF a] addCategory_frame(1)[OF a] t w
      show ?thesis by (simp add: setTabIcon_texts setTabIcon_frame)
    qed
  qed
qed

lemma orderedLoop_frame:
  assumes "orderedLoop os s = (s', r)"
  shows "ribbonStructure s' = ribbonStructure s \<and> workbenches (gui s') = workbenches (gui s) \<and>
         GetString (gui s') = GetString (gui s) \<and> quickAccess s' = quickAccess s"
  using assms
proof (induction os arbitrary: s)
  case Nil
  then show ?case by simp
next
  case (Cons ordered os)
  obtain s1 r1 where a: "addWorkbenchTabs ordered (workbenches (gui s)) s = (s1, r1)"
    by (cases "addWorkbenchTabs ordered (workbenches (gui s)) s")
  show ?case
  proof (cases r1)
    case None
    with a Cons.prems have "orderedLoop os s1 = (s', r)" by (simp add: andThen_def)
    from Cons.IH[OF this] addWorkbenchTabs_frame[OF a] show ?thesis by simp
  next
    case (Some e)
    with a Cons.prems have "s' = s1" by (simp add: andThen_def)
    with addWorkbenchTabs_frame[OF a] show ?thesis by simp
  qed
qed

lemma orderedLoop_shape:
  assumes "orderedLoop os s = (s', None)"
  shows "map tab_text (tabs s') =
           map tab_text (tabs s)
             @ concat (map (\<lambda>ordered. map (wb_MenuText \<circ> snd)
                          (filter (tabbedWorkbench (ribbonStructure s) ordered)
                             (workbenches (gui s)))) os)
         \<and> map cat_title (categories s') =
           map cat_title (categories s)
             @ concat (map (\<lambda>ordered. map (wb_MenuText \<circ> snd)
                          (filter (tabbedWorkbench (ribbonStructure s) ordered)
                             (workbenches (gui s)))) os)"
  using assms
proof (induction os arbitrary: s)
  case Nil
  then show ?case by simp
next
  case (Cons ordered os)
  from andThen_returns[of "addWorkbenchTabs ordered (workbenches (gui s)) s" "orderedLoop os" s']
    Cons.prems
  obtain s1 where
    a: "addWorkbenchTabs ordered (workbenches (gui s)) s = (s1, None)" and
    r: "orderedLoop os s1 = (s', None)"
    by auto
  from addWorkbenchTabs_shape[OF a] addWorkbenchTabs_frame[OF a] Cons.IH[OF r]
  show ?case by simp
qed

lemma quickAccessLoop_shape:
  assumes "quickAccessLoop h names qa = (qa', None)"
  shows "\<exists>new. qa' = qa @ new \<and> list_all2 (firstAction h) names new"
  using assms
proof (induction names arbitrary: qa)
  case Nil
  then show ?case by simp
next
  case (Cons n names)
  from Cons.prems obtain c a as where c: "map_of (commands h) n = Some c" "c_actions c = a # as"
    and r: "quickAccessLoop h names (qa @ [a]) = (qa', None)"
    by (auto split: option.splits list.splits)
  from Cons.IH[OF r] obtain new where n: "qa' = (qa @ [a]) @ new" "list_all2 (firstAction h) names new"
    by blast
  have "firstAction h n a" using c by (simp add: firstAction_def)
  with n have "qa' = qa @ (a # new) \<and> list_all2 (firstAction h) (n # names) (a # new)" by simp
  then show ?case by blast
qed

lemma createModernMenu_frame:
  assumes "createModernMenu s = (s', r)"
  shows "ribbonStructure s' = ribbonStructure s"
proof (cases "bnd (getitem (ribbonStructure s) ''quickAccessCommands'') py_iter")
  case (Inl e)
  with assms show ?thesis by (simp add: createModernMenu_def)
next
  case (Inr names)
  obtain qa r1 where q: "quickAccessLoop (gui s) names (quickAccess s) = (qa, r1)"
    by (cases "quickAccessLoop (gui s) names (quickAccess s)")
  show ?thesis
  proof (cases r1)
    case (Some e)
    with Inr q assms show ?thesis by (auto simp: createModernMenu_def)
  next
    case None
    with Inr q assms have
      "orderedLoop (WorkbenchOrderedList (gui s)) (s\<lparr>quickAccess := qa\<rparr>) = (s', r)"
      by (simp add: createModernMenu_def)
    from orderedLoop_frame[OF this] show ?thesis by simp
  qed
qed

lemma createModernMenu_shape:
  assumes "createModernMenu s = (s', None)"
  shows "map tab_text (tabs s') =
           map tab_text (tabs s)
             @ concat (map (\<lambda>ordered. map (wb_MenuText \<circ> snd)
                          (filter (tabbedWorkbench (ribbonStructure s) ordered)
                             (workbenches (gui s)))) (WorkbenchOrderedList (gui s)))"
    and "map cat_title (categories s') =
           map cat_title (categories s)
             @ concat (map (\<lambda>ordered. map (wb_MenuText \<circ> snd)
                          (filter (tabbedWorkbench (ribbonStructure s) ordered)
                             (workbenches (gui s)))) (WorkbenchOrderedList (gui s)))"
    and "\<exists>names new. bnd (getitem (ribbonStructure s) ''quickAccessCommands'') py_iter = Inr names \<and>
           quickAccess s' = quickAccess s @ new \<and> list_all2 (firstAction (gui s)) names new"
proof -
  from assms obtain names where
    n: "bnd (getitem (ribbonStructure s) ''quickAccessCommands'') py_iter = Inr names"
    by (cases "bnd (getitem (ribbonStructure s) ''quickAccessCommands'') py_iter")
       (auto simp: createModernMenu_def)
  obtain qa r1 where q0: "quickAccessLoop (gui s) names (quickAccess s) = (qa, r1)"
    by (cases "quickAccessLoop (gui s) names (quickAccess s)")
  with n assms have "r1 = None" by (cases r1) (auto simp: createModernMenu_def)
  with q0 have q: "quickAccessLoop (gui s) names (quickAccess s) = (qa, None)" by simp
  with n assms have
    o: "orderedLoop (WorkbenchOrderedList (gui s)) (s\<lparr>quickAccess := qa\<rparr>) = (s', None)"
    by (simp add: createModernMenu_def)
  from orderedLoop_shape[OF o]
  show "map tab_text (tabs s') =
           map tab_text (tabs s)
             @ concat (map (\<lambda>ordered. map (wb_MenuText \<circ> snd)
                          (filter (tabbedWorkbench (ribbonStructure s) ordered)
                             (workbenches (gui s)))) (WorkbenchOrderedList (gui s)))"
    and "map cat_title (categories s') =
           map cat_title (categories s)
             @ concat (map (\<lambda>ordered. map (wb_MenuText \<circ> snd)
                          (filter (tabbedWorkbench (ribbonStructure s) ordered)
                             (workbenches (gui s)))) (WorkbenchOrderedList (gui s)))"
    by simp_all
  from quickAccessLoop_shape[OF q] orderedLoop_frame[OF o] n
  show "\<exists>names new. bnd (getitem (ribbonStructure s) ''quickAccessCommands'') py_iter = Inr names \<and>
           quickAccess s' = quickAccess s @ new \<and> list_all2 (firstAction (gui s)) names new"
    by auto
qed

text \<open>The panels that \<open>buildPanels\<close> adds.\<close>

lemma buildPanels_passes:
  assumes "buildPanels s = (s', None)" and "isWbLoaded s (currentTabName s) = Some False"
  shows "\<exists>panels hs.
           categories s' = addPanels s panels \<and>
           length panels = length (filter (shownToolbar (ribbonStructure s))
                                     (ListToolbars (ribbonStructure s) (gui s))) \<and>
           length hs = Suc (length panels) \<and>
           hs ! 0 = gui s \<and> hs ! length panels = gui s' \<and>
           (\<forall>k<length panels.
              buildPanel (ribbonStructure s) (parameters s) (wb_name (activeWorkbench (gui s)))
                (filter (shownToolbar (ribbonStructure s))
                   (ListToolbars (ribbonStructure s) (gui s)) ! k) (hs ! k)
                = ((panels ! k, hs ! Suc k), None))"
proof -
  from buildPanels_cases[OF assms(1)] assms(2) obtain panels h where
    l: "panelsLoop (ribbonStructure s) (parameters s) (wb_name (activeWorkbench (gui s)))
          (hasCurrentCategory s) (ListToolbars (ribbonStructure s) (gui s)) ([], gui s)
          = ((panels, h), None)" and
    c: "categories s' = addPanels s panels" "gui s' = h"
    by auto
  from panelsLoop_passes[OF l] obtain hs where
    h: "length panels = length (filter (shownToolbar (ribbonStructure s))
                                  (ListToolbars (ribbonStructure s) (gui s)))"
       "length hs = Suc (length (filter (shownToolbar (ribbonStructure s))
                                  (ListToolbars (ribbonStructure s) (gui s))))"
       "hs ! 0 = gui s"
       "hs ! length (filter (shownToolbar (ribbonStructure s))
                       (ListToolbars (ribbonStructure s) (gui s))) = h"
       "\<forall>k<length (filter (shownToolbar (ribbonStructure s))
                       (ListToolbars (ribbonStructure s) (gui s))).
              buildPanel (ribbonStructure s) (parameters s) (wb_name (activeWorkbench (gui s)))
                (filter (shownToolbar (ribbonStructure s))
                   (ListToolbars (ribbonStructure s) (gui s)) ! k) (hs ! k)
                = ((panels ! k, hs ! Suc k), None)"
    by auto
  show ?thesis
    by (rule exI[of _ panels], rule exI[of _ hs]) (use c h in simp)
qed

text \<open>The example, evaluated.\<close>

lemma ex_buildPanels:
  "(snd (buildPanels ex_menu),
    map (\<lambda>p. (p_title p, map rb_text (p_buttons p), map rb_size (p_buttons p),
               map rb_action (p_buttons p)))
      (cat_panels (categories (fst (buildPanels ex_menu)) ! 1)),
    map (b_text \<circ> buttons (gui (fst (buildPanels ex_menu)))) [0, 1, 2, 3, 4, 5])
   = (None,
      [(''Solids'', [''Cylinder'', ''Cube''], [Small, Large], [1, 0]),
       (''File'', [''Save''], [Small], [3])],
      [''Cube'', ''Cylinder'', ''Cone'', ''Cube'', [], ''Save''])"
  by code_simp

lemma ex_built: "buildPanels ex_menu = (ex_built, None)"
  using ex_buildPanels by (simp add: ex_built_def prod_eq_iff)

lemma ex_menu_unloaded: "isWbLoaded ex_menu (currentTabName ex_menu) = Some False"
  by code_simp

lemma ex_ListToolbars:
  "ListToolbars (ribbonStructure ex_menu) (gui ex_menu) = [[], ''Solids'', ''File'', ''Clipboard'']"
  by code_simp

lemma ex_shown:
  "filter (shownToolbar (ribbonStructure ex_menu))
     (ListToolbars (ribbonStructure ex_menu) (gui ex_menu)) = [''Solids'', ''File'']"
  unfolding ex_ListToolbars
  by (simp add: shownToolbar_def ex_menu_def ex_structure_def bnd_def)

lemma ex_built_panels:
  "map (\<lambda>p. (p_title p, map rb_text (p_buttons p), map rb_size (p_buttons p),
              map rb_action (p_buttons p)))
     (cat_panels (categories ex_built ! 1))
   = [(''Solids'', [''Cylinder'', ''Cube''], [Small, Large], [1, 0]),
      (''File'', [''Save''], [Small], [3])]"
  using ex_buildPanels by (simp add: ex_built_def)

section \<open>C1: the ribbon follows the active workbench\<close>

text \<open>
  Claim C1. When a tab carries the \<open>MenuText\<close> of the active workbench as its
  label, \<open>updateCurrentTab\<close> makes the index of the first such tab the current
  index, and so after \<open>onWbActivated\<close> has run (whether it returns or raises) the
  current index of the tab bar is \<open>indexOf\<close> of that label and the current tab has
  that label. Conversely, \<open>onUserChangedWorkbench\<close> either raises KeyError with
  nothing changed, because \<open>wbNameMapping\<close> has no entry for the text of the
  current tab with every \<open>&\<close> removed or the host knows no workbench of that
  name, or the workbench registered under the name \<open>wbNameMapping[t]\<close> is the
  active one afterwards; the latter is the case whenever it returns.
\<close>

theorem tab_follows_workbench:
  "(wb_MenuText (activeWorkbench (gui s)) \<in> set (map tab_text (tabs s)) \<longrightarrow>
      currentIndex (updateCurrentTab s) = indexOf s (wb_MenuText (activeWorkbench (gui s))))
   \<and> (onWbActivated s = (s', r) \<and>
       wb_MenuText (activeWorkbench (gui s)) \<in> set (map tab_text (tabs s)) \<longrightarrow>
      currentIndex s' = indexOf s' (wb_MenuText (activeWorkbench (gui s'))) \<and>
      validIndex s' (currentIndex s') \<and>
      tabText s' (currentIndex s') = wb_MenuText (activeWorkbench (gui s')))
   \<and> (onUserChangedWorkbench s = (s'', r'') \<longrightarrow>
      (r'' = Some KeyError \<and> s'' = s \<and>
       (wbNameMapping s (strip_amp (tabText s (currentIndex s))) = None \<or>
        (\<exists>n. wbNameMapping s (strip_amp (tabText s (currentIndex s))) = Some n \<and>
              map_of (workbenches (gui s)) n = None))) \<or>
      (\<exists>n wb. wbNameMapping s (strip_amp (tabText s (currentIndex s))) = Some n \<and>
               map_of (workbenches (gui s)) n = Some wb \<and>
               activeWorkbench (gui s'') = wb))"
proof (intro conjI impI)
  assume "wb_MenuText (activeWorkbench (gui s)) \<in> set (map tab_text (tabs s))"
  then show "currentIndex (updateCurrentTab s) = indexOf s (wb_MenuText (activeWorkbench (gui s)))"
    using updateCurrentTab_found(1) by blast
next
  assume a: "onWbActivated s = (s', r) \<and>
       wb_MenuText (activeWorkbench (gui s)) \<in> set (map tab_text (tabs s))"
  let ?l = "wb_MenuText (activeWorkbench (gui s))"
  note fr = onWbActivated_frame[OF conjunct1[OF a]]
  have f: "currentIndex (updateCurrentTab s) = indexOf s ?l" "validIndex s (indexOf s ?l)"
    "tabText s (indexOf s ?l) = ?l"
    using updateCurrentTab_found[OF refl conjunct2[OF a]] by auto
  show "currentIndex s' = indexOf s' (wb_MenuText (activeWorkbench (gui s')))"
    using fr(3,7) f indexOf_cong[OF fr(1)] by simp
  show "validIndex s' (currentIndex s')"
    using fr(3,7) f validIndex_cong[OF fr(1)] by simp
  show "tabText s' (currentIndex s') = wb_MenuText (activeWorkbench (gui s'))"
    using fr(3,7) f tabText_cong[OF fr(1)] by simp
next
  assume a: "onUserChangedWorkbench s = (s'', r'')"
  from onUserChangedWorkbench_cases[OF a]
  consider (raised) "s'' = s" "r'' = Some KeyError"
      "wbNameMapping s (strip_amp (tabText s (currentIndex s))) = None \<or>
        (\<exists>n. wbNameMapping s (strip_amp (tabText s (currentIndex s))) = Some n \<and>
              map_of (workbenches (gui s)) n = None)"
    | (activated) n wb where "wbNameMapping s (strip_amp (tabText s (currentIndex s))) = Some n"
        "map_of (workbenches (gui s)) n = Some wb"
        "onWbActivated (s\<lparr>gui := (gui s)\<lparr>activeWorkbench := wb\<rparr>\<rparr>) = (s'', r'')"
    by blast
  then show "(r'' = Some KeyError \<and> s'' = s \<and>
       (wbNameMapping s (strip_amp (tabText s (currentIndex s))) = None \<or>
        (\<exists>n. wbNameMapping s (strip_amp (tabText s (currentIndex s))) = Some n \<and>
              map_of (workbenches (gui s)) n = None))) \<or>
      (\<exists>n wb. wbNameMapping s (strip_amp (tabText s (currentIndex s))) = Some n \<and>
               map_of (workbenches (gui s)) n = Some wb \<and>
               activeWorkbench (gui s'') = wb)"
  proof cases
    case raised
    then show ?thesis by blast
  next
    case activated
    from onWbActivated_frame(7)[OF activated(3)] have "activeWorkbench (gui s'') = wb" by simp
    with activated(1,2) show ?thesis by blast
  qed
qed

text \<open>On the example with the tab of Draft selected and Part active: the slot
  moves the tab bar to the tab of Part; selecting the tab \<open>&Draft\<close> activates
  \<open>DraftWorkbench\<close>.\<close>

theorem tab_follows_workbench_witness:
  "wb_MenuText (activeWorkbench (gui ex_elsewhere)) \<in> set (map tab_text (tabs ex_elsewhere))
   \<and> currentIndex ex_elsewhere = 0
   \<and> snd (onWbActivated ex_elsewhere) = None
   \<and> currentIndex (fst (onWbActivated ex_elsewhere)) = 1
   \<and> indexOf (fst (onWbActivated ex_elsewhere)) ''Part'' = 1
   \<and> tabText (fst (onWbActivated ex_elsewhere)) 1 = ''Part''
   \<and> tabText ex_elsewhere (currentIndex ex_elsewhere) = ''&Draft''
   \<and> snd (onUserChangedWorkbench ex_elsewhere) = None
   \<and> wbNameMapping ex_elsewhere ''Draft'' = Some ''DraftWorkbench''
   \<and> activeWorkbench (gui (fst (onUserChangedWorkbench ex_elsewhere))) = ex_draft"
proof -
  have m: "wb_MenuText (activeWorkbench (gui ex_elsewhere))
             \<in> set (map tab_text (tabs ex_elsewhere))"
    by (simp add: ex_elsewhere_def ex_menu_def ex_host_def ex_part_def)
  have c: "currentIndex ex_elsewhere = 0" by (simp add: ex_elsewhere_def)
  have a: "(snd (onWbActivated ex_elsewhere), currentIndex (fst (onWbActivated ex_elsewhere)),
            wb_MenuText (activeWorkbench (gui (fst (onWbActivated ex_elsewhere)))))
           = (None, 1, ''Part'')"
    by code_simp
  have u: "snd (onUserChangedWorkbench ex_elsewhere) = None"
    by code_simp
  have t: "tabText ex_elsewhere (currentIndex ex_elsewhere) = ''&Draft''"
    by (simp add: ex_elsewhere_def ex_menu_def tabText_def validIndex_def)
  have w: "wbNameMapping ex_elsewhere ''Draft'' = Some ''DraftWorkbench''"
    by (simp add: ex_elsewhere_def ex_menu_def)
  have d: "map_of (workbenches (gui ex_elsewhere)) ''DraftWorkbench'' = Some ex_draft"
    by (simp add: ex_elsewhere_def ex_menu_def ex_host_def)
  from tab_follows_workbench[of ex_elsewhere "fst (onWbActivated ex_elsewhere)"
      "snd (onWbActivated ex_elsewhere)" "fst (onUserChangedWorkbench ex_elsewhere)"
      "snd (onUserChangedWorkbench ex_elsewhere)"] m a u t w d
  have "indexOf (fst (onWbActivated ex_elsewhere)) ''Part'' = 1"
    "tabText (fst (onWbActivated ex_elsewhere)) 1 = ''Part''"
    "activeWorkbench (gui (fst (onUserChangedWorkbench ex_elsewhere))) = ex_draft"
    by (auto simp: strip_amp_def prod_eq_iff)
  with m c a u t w show ?thesis by simp
qed

section \<open>C2: the retry timer\<close>

text \<open>
  Claim C2. Whenever the active workbench lacks the attribute \<open>__Workbench__\<close>,
  \<open>onWbActivated\<close> returns after connecting itself once more to the timeout of
  the module-level timer, making the timer single-shot and starting it with 100
  ms; no panel, no entry of \<open>isWbLoaded\<close>, no action and no tool button has
  changed. When the workbench has the attribute, \<open>onWbActivated\<close> is
  \<open>buildPanels\<close> after \<open>updateCurrentTab\<close> and \<open>hideClassicToolbars\<close>, and the
  timer is left alone, whether \<open>buildPanels\<close> returns or raises. So panels are
  built only for a workbench that has the attribute.
\<close>

theorem retry_timer:
  "(\<not> wb_loaded (activeWorkbench (gui s)) \<longrightarrow>
      (\<exists>s'. onWbActivated s = (s', None) \<and>
            timer s' = \<lparr>t_slots = Suc (t_slots (timer s)), t_singleShot = True,
                        t_started = Some 100\<rparr> \<and>
            categories s' = categories s \<and>
            isWbLoaded s' = isWbLoaded s \<and>
            actions (gui s') = actions (gui s) \<and>
            buttons (gui s') = buttons (gui s)))
   \<and> (wb_loaded (activeWorkbench (gui s)) \<longrightarrow>
        onWbActivated s = buildPanels (hideClassicToolbars (updateCurrentTab s)) \<and>
        (\<forall>s' r. onWbActivated s = (s', r) \<longrightarrow> timer s' = timer s))"
proof (intro conjI impI allI)
  assume n: "\<not> wb_loaded (activeWorkbench (gui s))"
  let ?s1 = "hideClassicToolbars (updateCurrentTab s)"
  have "onWbActivated s = (?s1\<lparr>timer := startRetryTimer (timer ?s1)\<rparr>, None)"
    using n by (simp add: onWbActivated_def Let_def hideClassicToolbars_frame updateCurrentTab_frame)
  then show "\<exists>s'. onWbActivated s = (s', None) \<and>
            timer s' = \<lparr>t_slots = Suc (t_slots (timer s)), t_singleShot = True,
                        t_started = Some 100\<rparr> \<and>
            categories s' = categories s \<and>
            isWbLoaded s' = isWbLoaded s \<and>
            actions (gui s') = actions (gui s) \<and>
            buttons (gui s') = buttons (gui s)"
    by (simp add: hideClassicToolbars_frame updateCurrentTab_frame startRetryTimer_def)
next
  assume l: "wb_loaded (activeWorkbench (gui s))"
  then show e: "onWbActivated s = buildPanels (hideClassicToolbars (updateCurrentTab s))"
    by (simp add: onWbActivated_def Let_def hideClassicToolbars_frame updateCurrentTab_frame)
  fix s' r assume "onWbActivated s = (s', r)"
  with e have "buildPanels (hideClassicToolbars (updateCurrentTab s)) = (s', r)" by simp
  from buildPanels_frame(6)[OF this] show "timer s' = timer s"
    by (simp add: hideClassicToolbars_frame updateCurrentTab_frame)
qed

text \<open>On the example: with Draft active (not loaded yet) the timer is set and the
  panels stay empty; with Part active the panels are built.\<close>

theorem retry_timer_witness:
  "\<not> wb_loaded (activeWorkbench (gui ex_waiting))
   \<and> (\<exists>s'. onWbActivated ex_waiting = (s', None) \<and>
            timer s' = \<lparr>t_slots = 1, t_singleShot = True, t_started = Some 100\<rparr> \<and>
            map cat_panels (categories s') = [[], []] \<and>
            isWbLoaded s' = isWbLoaded ex_waiting)
   \<and> wb_loaded (activeWorkbench (gui ex_menu))
   \<and> onWbActivated ex_menu = buildPanels (hideClassicToolbars (updateCurrentTab ex_menu))"
proof -
  have n: "\<not> wb_loaded (activeWorkbench (gui ex_waiting))"
    by (simp add: ex_waiting_def ex_draft_def)
  have l: "wb_loaded (activeWorkbench (gui ex_menu))"
    by (simp add: ex_menu_def ex_host_def ex_part_def)
  have t: "t_slots (timer ex_waiting) = 0" "map cat_panels (categories ex_waiting) = [[], []]"
    by (simp_all add: ex_waiting_def ex_menu_def)
  from retry_timer[of ex_waiting] retry_timer[of ex_menu] n l t show ?thesis by auto
qed

section \<open>C5: tabs and panels filtered by the ribbon structure\<close>

text \<open>
  Claim C5. When \<open>createModernMenu\<close> returns, the tabs it has added (and the
  categories, which have the same titles) are, in the order of the host's
  \<open>Ordered\<close> list, the \<open>MenuText\<close> of each workbench whose name is an entry of
  the list, is not empty, and whose \<open>MenuText\<close> is not in \<open>ignoredWorkbenches\<close>.
  When \<open>buildPanels\<close> builds and returns, the titles of the panels it has added
  are those of the names of \<open>ListToolbars\<close> that are not empty and not in
  \<open>ignoredToolbars\<close>: no panel is made for an empty or an ignored name.
\<close>

theorem json_filtering:
  "(createModernMenu s = (s', None) \<longrightarrow>
      map tab_text (tabs s') =
        map tab_text (tabs s)
          @ concat (map (\<lambda>ordered. map (wb_MenuText \<circ> snd)
                       (filter (tabbedWorkbench (ribbonStructure s) ordered)
                          (workbenches (gui s)))) (WorkbenchOrderedList (gui s))) \<and>
      map cat_title (categories s') =
        map cat_title (categories s)
          @ concat (map (\<lambda>ordered. map (wb_MenuText \<circ> snd)
                       (filter (tabbedWorkbench (ribbonStructure s) ordered)
                          (workbenches (gui s)))) (WorkbenchOrderedList (gui s))))
   \<and> (buildPanels s = (s'', None) \<and> isWbLoaded s (currentTabName s) = Some False \<longrightarrow>
        (\<exists>panels. categories s'' = addPanels s panels \<and>
           map p_title panels =
             map panelTitle (filter (shownToolbar (ribbonStructure s))
                               (ListToolbars (ribbonStructure s) (gui s)))))"
proof (intro conjI impI)
  assume a: "createModernMenu s = (s', None)"
  from createModernMenu_shape(1)[OF a]
  show "map tab_text (tabs s') =
        map tab_text (tabs s)
          @ concat (map (\<lambda>ordered. map (wb_MenuText \<circ> snd)
                       (filter (tabbedWorkbench (ribbonStructure s) ordered)
                          (workbenches (gui s)))) (WorkbenchOrderedList (gui s)))" .
  from createModernMenu_shape(2)[OF a]
  show "map cat_title (categories s') =
        map cat_title (categories s)
          @ concat (map (\<lambda>ordered. map (wb_MenuText \<circ> snd)
                       (filter (tabbedWorkbench (ribbonStructure s) ordered)
                          (workbenches (gui s)))) (WorkbenchOrderedList (gui s)))" .
next
  assume a: "buildPanels s = (s'', None) \<and> isWbLoaded s (currentTabName s) = Some False"
  let ?shown = "filter (shownToolbar (ribbonStructure s)) (ListToolbars (ribbonStructure s) (gui s))"
  from buildPanels_passes[OF conjunct1[OF a] conjunct2[OF a]] obtain panels hs where
    c: "categories s'' = addPanels s panels" and l: "length panels = length ?shown" and
    b: "\<forall>k<length panels.
          buildPanel (ribbonStructure s) (parameters s) (wb_name (activeWorkbench (gui s)))
            (?shown ! k) (hs ! k) = ((panels ! k, hs ! Suc k), None)"
    by blast
  have "map p_title panels = map panelTitle ?shown"
  proof (rule nth_equalityI)
    show "length (map p_title panels) = length (map panelTitle ?shown)" using l by simp
  next
    fix k assume "k < length (map p_title panels)"
    then have k: "k < length panels" by simp
    from b k have "panelOf (ribbonStructure s) (parameters s) (wb_name (activeWorkbench (gui s)))
                     (?shown ! k) (hs ! k) (panels ! k)"
      using buildPanel_ok by blast
    then have "p_title (panels ! k) = panelTitle (?shown ! k)" by (simp add: panelOf_def)
    with k l show "map p_title panels ! k = map panelTitle ?shown ! k" by simp
  qed
  with c show "\<exists>panels. categories s'' = addPanels s panels \<and>
           map p_title panels = map panelTitle ?shown"
    by blast
qed

text \<open>On the example: of Draft, Part and Test (ignored) the tabs Draft and Part;
  of the toolbars File, Clipboard (ignored), Solids and the one without a name,
  the panels Solids and File.\<close>

theorem json_filtering_witness:
  "snd (createModernMenu ex_blank_structured) = None
   \<and> map tab_text (tabs (fst (createModernMenu ex_blank_structured))) = [''Draft'', ''Part'']
   \<and> map cat_title (categories (fst (createModernMenu ex_blank_structured))) = [''Draft'', ''Part'']
   \<and> WorkbenchOrderedList (gui ex_blank_structured)
       = [''DraftWorkbench'', ''PartWorkbench'', ''TestWorkbench'', []]
   \<and> buildPanels ex_menu = (ex_built, None)
   \<and> isWbLoaded ex_menu (currentTabName ex_menu) = Some False
   \<and> (\<exists>panels. categories ex_built = addPanels ex_menu panels \<and>
         map p_title panels = [''Solids'', ''File''])
   \<and> ListToolbars (ribbonStructure ex_menu) (gui ex_menu) = [[], ''Solids'', ''File'', ''Clipboard'']"
proof -
  have s': "(snd (createModernMenu ex_blank_structured),
             map tab_text (tabs (fst (createModernMenu ex_blank_structured))))
          = (None, [''Draft'', ''Part''])"
    by code_simp
  then have r: "createModernMenu ex_blank_structured
                  = (fst (createModernMenu ex_blank_structured), None)"
    by (simp add: prod_eq_iff)
  have o: "WorkbenchOrderedList (gui ex_blank_structured)
       = [''DraftWorkbench'', ''PartWorkbench'', ''TestWorkbench'', []]"
    by code_simp
  have e: "tabs ex_blank_structured = []" "categories ex_blank_structured = []"
    by (simp_all add: ex_blank_structured_def ex_blank_def)
  from json_filtering[of ex_menu _ ex_built] ex_built ex_menu_unloaded
  have p: "\<exists>panels. categories ex_built = addPanels ex_menu panels \<and>
         map p_title panels = [''Solids'', ''File'']"
    unfolding ex_shown by (simp add: panelTitle_def endswith_def)
  from json_filtering[of ex_blank_structured "fst (createModernMenu ex_blank_structured)"] r e
  have "map cat_title (categories (fst (createModernMenu ex_blank_structured)))
          = map tab_text (tabs (fst (createModernMenu ex_blank_structured)))"
    by simp
  with s' p o ex_built ex_menu_unloaded ex_ListToolbars show ?thesis by simp
qed

section \<open>C6: buildPanels builds a tab once\<close>

text \<open>
  Claim C6. When \<open>isWbLoaded\<close> is \<open>True\<close> for the text of the current tab (with
  \<open>&\<close> removed), \<open>buildPanels\<close> returns the state as it is. When \<open>buildPanels\<close>
  returns, the entry of the current tab is \<open>True\<close>, every entry that was \<open>True\<close>
  still is, and \<open>buildPanels\<close> on the new state changes nothing: calling it twice
  in succession is calling it once.
\<close>

theorem buildPanels_idempotent:
  "(isWbLoaded s (currentTabName s) = Some True \<longrightarrow> buildPanels s = (s, None))
   \<and> (buildPanels s = (s', None) \<longrightarrow>
        isWbLoaded s' (currentTabName s') = Some True \<and>
        buildPanels s' = (s', None) \<and>
        (\<forall>t. isWbLoaded s t = Some True \<longrightarrow> isWbLoaded s' t = Some True))
   \<and> andThen (buildPanels s) buildPanels = buildPanels s"
proof -
  have a: "buildPanels s = (s, None)" if "isWbLoaded s (currentTabName s) = Some True" for s
    using that by (simp add: buildPanels_def Let_def)
  have b: "isWbLoaded s' (currentTabName s') = Some True
           \<and> (\<forall>t. isWbLoaded s t = Some True \<longrightarrow> isWbLoaded s' t = Some True)"
    if r: "buildPanels s = (s', None)" for s'
    using buildPanels_cases[OF r] currentTabName_buildPanels[OF r] by auto
  have c: "andThen (buildPanels s) buildPanels = buildPanels s"
  proof (cases "buildPanels s")
    case (Pair s1 r)
    show ?thesis
    proof (cases r)
      case None
      with Pair a[of s1] b[of s1] show ?thesis by (simp add: andThen_def)
    next
      case (Some e)
      with Pair show ?thesis by (simp add: andThen_def)
    qed
  qed
  from a b c show ?thesis by blast
qed

text \<open>On the example: the first call builds the panels of Part, the second one
  returns the state of the first.\<close>

theorem buildPanels_idempotent_witness:
  "isWbLoaded ex_menu (currentTabName ex_menu) = Some False
   \<and> buildPanels ex_menu = (ex_built, None)
   \<and> isWbLoaded ex_built (currentTabName ex_built) = Some True
   \<and> buildPanels ex_built = (ex_built, None)
   \<and> andThen (buildPanels ex_menu) buildPanels = buildPanels ex_menu"
  using buildPanels_idempotent[of ex_menu ex_built] ex_built ex_menu_unloaded by simp

section \<open>C8: the size of a button\<close>

text \<open>
  Claim C8. For a button with a default action whose text and icon steps did not
  raise: the \<open>size\<close> entry \<open>small\<close>, \<open>medium\<close> or \<open>large\<close> of its command gives
  a small, medium or large ribbon button, with the \<open>showText\<close> and \<open>fixedHeight\<close>
  of that size; a missing entry (KeyError) gives a small one; any other value
  raises NotImplementedError, and then the loop goes on with the next button,
  with the panel and \<open>shadowList\<close> as they were.
\<close>

theorem button_size_handling:
  assumes "b_action (buttons h button) = Some a"
    and "overrideText rs wbn toolbar a h = Inr h1"
    and "defaultIcon rs wbn toolbar a h1 = Inr h2"
    and "overrideIcon rs wbn toolbar a h2 = Inr h3"
    and "entry = bnd (commandEntry rs wbn toolbar (a_data (actions h3 a))) (\<lambda>e. getitem e ''size'')"
    and "btn = \<lparr>rb_size = Small, rb_text = a_text (actions h3 a), rb_icon = a_icon (actions h3 a),
                 rb_showText = SHOW_ICON_TEXT_SMALL P, rb_fixedHeight = Some (ICON_SIZE_SMALL P),
                 rb_action = a, rb_menu = b_menu (buttons h3 button)\<rparr>"
  shows "(entry = Inr (JStr ''small'') \<or> entry = Inl KeyError \<longrightarrow>
            tryButton rs P wbn toolbar button h = (h3, Inr btn))
       \<and> (entry = Inr (JStr ''medium'') \<longrightarrow>
            tryButton rs P wbn toolbar button h
              = (h3, Inr (btn\<lparr>rb_size := Medium, rb_showText := SHOW_ICON_TEXT_MEDIUM P,
                              rb_fixedHeight := Some (ICON_SIZE_MEDIUM P)\<rparr>)))
       \<and> (entry = Inr (JStr ''large'') \<longrightarrow>
            tryButton rs P wbn toolbar button h
              = (h3, Inr (btn\<lparr>rb_size := Large, rb_showText := SHOW_ICON_TEXT_LARGE P,
                              rb_fixedHeight := None\<rparr>)))
       \<and> (\<forall>v. entry = Inr v \<and> v \<noteq> JStr ''small'' \<and> v \<noteq> JStr ''medium'' \<and> v \<noteq> JStr ''large'' \<longrightarrow>
            tryButton rs P wbn toolbar button h = (h3, Inl NotImplementedError) \<and>
            (b_text (buttons h button) \<noteq> [] \<and> b_text (buttons h button) \<notin> set shadowList \<longrightarrow>
               addButtons rs P wbn toolbar (button # bs) (btns, shadowList, h)
                 = addButtons rs P wbn toolbar bs (btns, shadowList, h3)))"
proof -
  have t: "tryButton rs P wbn toolbar button h =
             (h3, bnd (buttonSize rs wbn toolbar (a_data (actions h3 a)))
                    (\<lambda>sz. addSizedButton P sz (actions h3 a) a (buttons h3 button)))"
    using assms(1-4) by (simp add: tryButton_def)
  have s: "buttonSize rs wbn toolbar (a_data (actions h3 a)) =
             (case entry of Inl KeyError \<Rightarrow> Inr (JStr ''small'') | r \<Rightarrow> r)"
    using assms(5) by (simp add: buttonSize_def)
  show ?thesis
    using t s assms(6)
    by (auto simp: bnd_def addSizedButton_def Let_def)
qed

text \<open>On the example: the size \<open>huge\<close> of \<open>Part_Cone\<close> raises and the button is
  skipped; \<open>Part_Cylinder\<close> has no entry and gets a small button.\<close>

theorem button_size_handling_witness:
  "tryButton ex_structure ex_parameters ''PartWorkbench'' ''Solids'' 2 ex_host
     = (ex_host, Inl NotImplementedError)
   \<and> addButtons ex_structure ex_parameters ''PartWorkbench'' ''Solids'' [2, 1] ([], [], ex_host)
     = addButtons ex_structure ex_parameters ''PartWorkbench'' ''Solids'' [1] ([], [], ex_host)
   \<and> tryButton ex_structure ex_parameters ''PartWorkbench'' ''Solids'' 1 ex_host
     = (ex_host,
        Inr \<lparr>rb_size = Small, rb_text = ''Cylinder'', rb_icon = Some ''Part_Cylinder'',
             rb_showText = False, rb_fixedHeight = Some 24, rb_action = 1, rb_menu = Some 7\<rparr>)"
proof -
  have b: "b_action (buttons ex_host 2) = Some 2" "b_action (buttons ex_host 1) = Some 1"
    "b_text (buttons ex_host 2) = ''Cone''" "b_menu (buttons ex_host 1) = Some 7"
    by (simp_all add: ex_host_def ex_buttons_def)
  have a: "actions ex_host 1 = \<lparr>a_text = ''Cylinder'', a_icon = Some ''Part_Cylinder'',
                                 a_data = Some ''Part_Cylinder''\<rparr>"
    "actions ex_host 2 = \<lparr>a_text = ''Cone'', a_icon = Some ''Part_Cone'',
                           a_data = Some ''Part_Cone''\<rparr>"
    by (simp_all add: ex_host_def ex_actions_def)
  have t: "overrideText ex_structure ''PartWorkbench'' ''Solids'' n ex_host = Inr ex_host"
    if "n = 1 \<or> n = 2" for n
    using that a
    by (auto simp: overrideText_def commandEntry_def bnd_def ex_structure_def)
  have d: "defaultIcon ex_structure ''PartWorkbench'' ''Solids'' n ex_host = Inr ex_host"
    if "n = 1 \<or> n = 2" for n
    using that a by (auto simp: defaultIcon_def)
  have i: "overrideIcon ex_structure ''PartWorkbench'' ''Solids'' n ex_host = Inr ex_host"
    if "n = 1 \<or> n = 2" for n
    using that a
    by (auto simp: overrideIcon_def commandEntry_def bnd_def ex_structure_def)
  have e2: "bnd (commandEntry ex_structure ''PartWorkbench'' ''Solids'' (a_data (actions ex_host 2)))
              (\<lambda>e. getitem e ''size'') = Inr (JStr ''huge'')"
    using a by (simp add: commandEntry_def bnd_def ex_structure_def)
  have e1: "bnd (commandEntry ex_structure ''PartWorkbench'' ''Solids'' (a_data (actions ex_host 1)))
              (\<lambda>e. getitem e ''size'') = Inl KeyError"
    using a by (simp add: commandEntry_def bnd_def ex_structure_def)
  have P: "SHOW_ICON_TEXT_SMALL ex_parameters = False" "ICON_SIZE_SMALL ex_parameters = 24"
    by (simp_all add: ex_parameters_def)
  from button_size_handling[of ex_host 2 2 ex_structure "''PartWorkbench''" "''Solids''" ex_host
         ex_host ex_host _ _ ex_parameters, OF b(1) t d i refl refl, of "[]" "[1]" "[]"] e2 b(3)
  have "tryButton ex_structure ex_parameters ''PartWorkbench'' ''Solids'' 2 ex_host
          = (ex_host, Inl NotImplementedError)"
       "addButtons ex_structure ex_parameters ''PartWorkbench'' ''Solids'' [2, 1] ([], [], ex_host)
        = addButtons ex_structure ex_parameters ''PartWorkbench'' ''Solids'' [1] ([], [], ex_host)"
    by simp_all
  moreover
  from button_size_handling[of ex_host 1 1 ex_structure "''PartWorkbench''" "''Solids''" ex_host
         ex_host ex_host _ _ ex_parameters, OF b(2) t d i refl refl] e1 a(1) b(4) P
  have "tryButton ex_structure ex_parameters ''PartWorkbench'' ''Solids'' 1 ex_host
     = (ex_host,
        Inr \<lparr>rb_size = Small, rb_text = ''Cylinder'', rb_icon = Some ''Part_Cylinder'',
             rb_showText = False, rb_fixedHeight = Some 24, rb_action = 1, rb_menu = Some 7\<rparr>)"
    by simp
  ultimately show ?thesis by simp
qed

section \<open>C10: the wrappers\<close>

text \<open>
  Claim C10. \<open>loadDesignMenu\<close> and \<open>loadSettingsMenu\<close> call the \<open>main\<close> of
  their module and change nothing else. \<open>LoadMarcoFreeCAD\<close> calls
  \<open>App.loadFile\<close> on the path of the script under \<open>pathScripts\<close> when
  \<open>MainWindowLoaded\<close> is \<open>True\<close> and that path ends with \<open>.py\<close>; otherwise it
  changes nothing.
\<close>

theorem thin_wrappers:
  "loadDesignMenu s = s\<lparr>gui := (gui s)\<lparr>calls := calls (gui s) @ [LoadDesignMain]\<rparr>\<rparr>
   \<and> loadSettingsMenu s = s\<lparr>gui := (gui s)\<lparr>calls := calls (gui s) @ [LoadSettingsMain]\<rparr>\<rparr>
   \<and> (MainWindowLoaded s \<and> endswith (path_join (pathScripts s) scriptName) ''.py'' \<longrightarrow>
        LoadMarcoFreeCAD s scriptName =
          s\<lparr>gui := (gui s)\<lparr>calls := calls (gui s)
                                @ [LoadFile (path_join (pathScripts s) scriptName)]\<rparr>\<rparr>)
   \<and> (\<not> (MainWindowLoaded s \<and> endswith (path_join (pathScripts s) scriptName) ''.py'') \<longrightarrow>
        LoadMarcoFreeCAD s scriptName = s)"
  by (simp add: loadDesignMenu_def loadSettingsMenu_def LoadMarcoFreeCAD_def hostCall_def Let_def)

text \<open>On the example: \<open>clean.py\<close> is loaded, \<open>notes.txt\<close> is not, and nothing is
  loaded before the constructor has finished.\<close>

theorem thin_wrappers_witness:
  "MainWindowLoaded ex_menu
   \<and> calls (gui (LoadMarcoFreeCAD ex_menu ''clean.py'')) = [LoadFile ''/Mod/Ribbon/Scripts/clean.py'']
   \<and> LoadMarcoFreeCAD ex_menu ''notes.txt'' = ex_menu
   \<and> \<not> MainWindowLoaded ex_blank
   \<and> LoadMarcoFreeCAD ex_blank ''clean.py'' = ex_blank
   \<and> calls (gui (loadDesignMenu ex_menu)) = [LoadDesignMain]
   \<and> calls (gui (loadSettingsMenu ex_menu)) = [LoadSettingsMain]"
proof -
  have m: "MainWindowLoaded ex_menu" "\<not> MainWindowLoaded ex_blank"
    "pathScripts ex_menu = ''/Mod/Ribbon/Scripts''" "calls (gui ex_menu) = []"
    by (simp_all add: ex_menu_def ex_blank_def ex_host_def)
  have p: "endswith (path_join ''/Mod/Ribbon/Scripts'' ''clean.py'') ''.py''"
    "\<not> endswith (path_join ''/Mod/Ribbon/Scripts'' ''notes.txt'') ''.py''"
    "path_join ''/Mod/Ribbon/Scripts'' ''clean.py'' = ''/Mod/Ribbon/Scripts/clean.py''"
    by (simp_all add: path_join_def endswith_def startswith_def)
  from thin_wrappers[of ex_menu "''clean.py''"] thin_wrappers[of ex_menu "''notes.txt''"]
    thin_wrappers[of ex_blank "''clean.py''"] m p
  show ?thesis by simp
qed

section \<open>C9: what the outcome of buildPanels depends on\<close>

text \<open>
  Claim C9, as amended. The outcome of \<open>buildPanels\<close> is determined by the host
  (active workbench, workbenches, toolbars and their tool buttons, commands,
  actions, parameter store), the ribbon structure, the constants of
  \<open>Parameters_Ribbon\<close> and what the widget itself holds for the current tab: for
  two states with the same host, the same \<open>ribbonStructure\<close>, the same constants,
  the same text of the current tab (up to \<open>&\<close>), the same \<open>isWbLoaded\<close> entry for
  that text, and a current category in both or in neither, \<open>buildPanels\<close>
  returns in both or raises the same exception in both, has added the same
  panels with the same buttons to the current category, and leaves the same host
  and the same \<open>isWbLoaded\<close> entry.
\<close>

theorem buildPanels_determined:
  assumes "gui s1 = gui s2"
    and "ribbonStructure s1 = ribbonStructure s2"
    and "parameters s1 = parameters s2"
    and "currentTabName s1 = currentTabName s2"
    and "isWbLoaded s1 (currentTabName s1) = isWbLoaded s2 (currentTabName s2)"
    and "hasCurrentCategory s1 = hasCurrentCategory s2"
  shows "snd (buildPanels s1) = snd (buildPanels s2)
       \<and> (\<exists>panels. categories (fst (buildPanels s1)) = addPanels s1 panels \<and>
                    categories (fst (buildPanels s2)) = addPanels s2 panels)
       \<and> gui (fst (buildPanels s1)) = gui (fst (buildPanels s2))
       \<and> isWbLoaded (fst (buildPanels s1)) (currentTabName s1)
           = isWbLoaded (fst (buildPanels s2)) (currentTabName s2)"
proof (cases "isWbLoaded s1 (currentTabName s1) = Some False")
  case False
  then have n: "isWbLoaded s1 (currentTabName s1) = None \<or> isWbLoaded s1 (currentTabName s1) = Some True"
    by (cases "isWbLoaded s1 (currentTabName s1)") auto
  with assms(5) have "fst (buildPanels s1) = s1" "fst (buildPanels s2) = s2"
    "snd (buildPanels s1) = snd (buildPanels s2)"
    by (auto simp: buildPanels_def Let_def)
  moreover have "categories s1 = addPanels s1 [] \<and> categories s2 = addPanels s2 []"
    by (simp add: addPanels_Nil)
  ultimately show ?thesis using assms(1,5) by auto
next
  case True
  with assms(5) have f: "isWbLoaded s1 (currentTabName s1) = Some False"
    "isWbLoaded s2 (currentTabName s2) = Some False" by simp_all
  obtain panels h r where
    l1: "panelsLoop (ribbonStructure s1) (parameters s1) (wb_name (activeWorkbench (gui s1)))
           (hasCurrentCategory s1) (ListToolbars (ribbonStructure s1) (gui s1)) ([], gui s1)
           = ((panels, h), r)"
    by (cases "panelsLoop (ribbonStructure s1) (parameters s1) (wb_name (activeWorkbench (gui s1)))
           (hasCurrentCategory s1) (ListToolbars (ribbonStructure s1) (gui s1)) ([], gui s1)") auto
  with assms have
    l2: "panelsLoop (ribbonStructure s2) (parameters s2) (wb_name (activeWorkbench (gui s2)))
           (hasCurrentCategory s2) (ListToolbars (ribbonStructure s2) (gui s2)) ([], gui s2)
           = ((panels, h), r)"
    by simp
  from buildPanels_build[OF f(1) l1] buildPanels_build[OF f(2) l2] assms(4) f
  show ?thesis by (cases r) auto
qed

text \<open>On the example and a state that differs from it in the mapping of the
  names, the timer and the quick access buttons.\<close>

theorem buildPanels_determined_witness:
  "gui ex_menu = gui ex_other
   \<and> wbNameMapping ex_menu ''Part'' \<noteq> wbNameMapping ex_other ''Part''
   \<and> timer ex_menu \<noteq> timer ex_other
   \<and> buildPanels ex_menu = (ex_built, None)
   \<and> snd (buildPanels ex_other) = None
   \<and> (\<exists>panels. categories ex_built = addPanels ex_menu panels \<and>
                categories (fst (buildPanels ex_other)) = addPanels ex_other panels)
   \<and> gui ex_built = gui (fst (buildPanels ex_other))"
proof -
  have a: "gui ex_menu = gui ex_other" "ribbonStructure ex_menu = ribbonStructure ex_other"
    "parameters ex_menu = parameters ex_other"
    "currentTabName ex_menu = currentTabName ex_other"
    "isWbLoaded ex_menu (currentTabName ex_menu) = isWbLoaded ex_other (currentTabName ex_other)"
    "hasCurrentCategory ex_menu = hasCurrentCategory ex_other"
    by (simp_all add: ex_other_def currentTabName_def tabText_def validIndex_def
        hasCurrentCategory_def)
  have d: "wbNameMapping ex_menu ''Part'' \<noteq> wbNameMapping ex_other ''Part''"
    "timer ex_menu \<noteq> timer ex_other"
    by (simp_all add: ex_other_def ex_menu_def)
  from buildPanels_determined[OF a] ex_built a(1) d show ?thesis by simp
qed

text \<open>
  The claim as it was stated (nothing but the results of the host and the ribbon
  structure influences the outcome) fails twice. Of two states with the same
  host, the same structure and the same tabs, the one where \<open>isWbLoaded\<close> is
  \<open>False\<close> for the current tab gets the panels Solids and File, the one where it
  is \<open>True\<close> gets none. And of two states that differ only in the constant
  \<open>SHOW_ICON_TEXT_SMALL\<close> of \<open>Parameters_Ribbon\<close>, one gets small buttons that
  show no text and the other small buttons that show it.
\<close>

theorem buildPanels_determined_counterexample:
  "gui ex_menu = gui ex_loaded
   \<and> ribbonStructure ex_menu = ribbonStructure ex_loaded
   \<and> tabs ex_menu = tabs ex_loaded
   \<and> categories ex_menu = categories ex_loaded
   \<and> currentIndex ex_menu = currentIndex ex_loaded
   \<and> map (map p_title \<circ> cat_panels) (categories (fst (buildPanels ex_menu)))
       = [[], [''Solids'', ''File'']]
   \<and> map (map p_title \<circ> cat_panels) (categories (fst (buildPanels ex_loaded))) = [[], []]
   \<and> ex_labelled = ex_menu\<lparr>parameters := ex_parameters\<lparr>SHOW_ICON_TEXT_SMALL := True\<rparr>\<rparr>
   \<and> map (\<lambda>p. map rb_showText (p_buttons p)) (cat_panels (categories (fst (buildPanels ex_menu)) ! 1))
       = [[False, True], [False]]
   \<and> map (\<lambda>p. map rb_showText (p_buttons p))
        (cat_panels (categories (fst (buildPanels ex_labelled)) ! 1))
       = [[True, True], [True]]"
proof -
  have "map (map p_title \<circ> cat_panels) (categories (fst (buildPanels ex_menu)))
       = [[], [''Solids'', ''File'']]"
    by code_simp
  moreover
  have "map (map p_title \<circ> cat_panels) (categories (fst (buildPanels ex_loaded))) = [[], []]"
    by code_simp
  moreover
  have "map (\<lambda>p. map rb_showText (p_buttons p))
          (cat_panels (categories (fst (buildPanels ex_menu)) ! 1))
       = [[False, True], [False]]"
    by code_simp
  moreover
  have "map (\<lambda>p. map rb_showText (p_buttons p))
        (cat_panels (categories (fst (buildPanels ex_labelled)) ! 1))
       = [[True, True], [True]]"
    by code_simp
  ultimately show ?thesis by (simp add: ex_loaded_def ex_labelled_def)
qed

end
